theory Spec2Isabelle
  imports Main "HOL-Library.Sublist"
begin

section \<open>Python values and the built-ins the refactor tool relies on\<close>

text \<open>
  The tool of \<^verbatim>\<open>src/tools/code/code_refactor_tool.py\<close> moves three kinds of Python
  values around: strings, the lists of strings produced by \<^verbatim>\<open>splitlines\<close>, and whatever
  the decoded model reply holds. One datatype covers them. A dictionary is an association
  list in insertion order with pairwise different keys; numbers are restricted to integers.
  A \<^typ>\<open>char\<close> stands for one code point below 256.
\<close>

datatype jval =
    JNull
  | JBool bool
  | JInt int
  | JStr string
  | JList "jval list"
  | JObj "(string \<times> jval) list"

datatype error =
    KeyError string
  | TypeError
  | AttributeError
  | UnboundLocalError
  | PyException string
  | CollaboratorError string

type_synonym dict = "string \<rightharpoonup> jval"

text \<open>Truth value testing of Python, as used by \<^verbatim>\<open>if x:\<close>.\<close>

fun truthy :: "jval \<Rightarrow> bool" where
  "truthy JNull = False"
| "truthy (JBool b) = b"
| "truthy (JInt i) = (i \<noteq> 0)"
| "truthy (JStr s) = (s \<noteq> [])"
| "truthy (JList xs) = (xs \<noteq> [])"
| "truthy (JObj kvs) = (kvs \<noteq> [])"

subsection \<open>\<^verbatim>\<open>str\<close> of an integer\<close>

definition digit_char :: "nat \<Rightarrow> char" where
  "digit_char d = ''0123456789abcdef'' ! (d mod 16)"

fun show_nat :: "nat \<Rightarrow> string" where
  "show_nat n = (if n < 10 then [digit_char n] else show_nat (n div 10) @ [digit_char (n mod 10)])"

declare show_nat.simps [simp del]

definition show_int :: "int \<Rightarrow> string" where
  "show_int i = (if i < 0 then CHR ''-'' # show_nat (nat (- i)) else show_nat (nat i))"

subsection \<open>\<^verbatim>\<open>repr\<close> and \<^verbatim>\<open>str\<close>\<close>

text \<open>
  \<^verbatim>\<open>repr\<close> of a string picks the double quote as delimiter only when the string holds a
  single quote and no double quote; it escapes the backslash, the delimiter, newline,
  carriage return and tab by name, and every other non-printable code point as
  \<^verbatim>\<open>\xNN\<close>.
\<close>

definition py_quote :: "string \<Rightarrow> char" where
  "py_quote s = (if CHR 0x27 \<in> set s \<and> CHR 0x22 \<notin> set s then CHR 0x22 else CHR 0x27)"

definition non_printable :: "char \<Rightarrow> bool" where
  "non_printable c =
     (let n = (of_char c :: nat) in n < 0x20 \<or> (0x7F \<le> n \<and> n \<le> 0xA0) \<or> n = 0xAD)"

definition py_escape_char :: "char \<Rightarrow> char \<Rightarrow> string" where
  "py_escape_char q c =
     (if c = CHR 0x5C then [CHR 0x5C, CHR 0x5C]
      else if c = q then [CHR 0x5C, q]
      else if c = CHR 0x0A then [CHR 0x5C, CHR ''n'']
      else if c = CHR 0x0D then [CHR 0x5C, CHR ''r'']
      else if c = CHR 0x09 then [CHR 0x5C, CHR ''t'']
      else if non_printable c then
        [CHR 0x5C, CHR ''x'', digit_char (of_char c div 16), digit_char (of_char c mod 16)]
      else [c])"

definition py_repr_str :: "string \<Rightarrow> string" where
  "py_repr_str s = (let q = py_quote s in q # concat (map (py_escape_char q) s) @ [q])"

fun join :: "string \<Rightarrow> string list \<Rightarrow> string" where
  "join sep [] = []"
| "join sep [x] = x"
| "join sep (x # y # ys) = x @ sep @ join sep (y # ys)"

fun py_repr :: "jval \<Rightarrow> string"
  and py_repr_elems :: "jval list \<Rightarrow> string list"
  and py_repr_items :: "(string \<times> jval) list \<Rightarrow> string list" where
  "py_repr JNull = ''None''"
| "py_repr (JBool b) = (if b then ''True'' else ''False'')"
| "py_repr (JInt i) = show_int i"
| "py_repr (JStr s) = py_repr_str s"
| "py_repr (JList xs) = ''['' @ join '', '' (py_repr_elems xs) @ '']''"
| "py_repr (JObj kvs) = ''{'' @ join '', '' (py_repr_items kvs) @ ''}''"
| "py_repr_elems [] = []"
| "py_repr_elems (x # xs) = py_repr x # py_repr_elems xs"
| "py_repr_items [] = []"
| "py_repr_items ((k, v) # kvs) = (py_repr_str k @ '': '' @ py_repr v) # py_repr_items kvs"

text \<open>\<^verbatim>\<open>str(x)\<close>, which is what an f-string and \<^verbatim>\<open>str.format\<close> put in place of a field.\<close>

fun py_str :: "jval \<Rightarrow> string" where
  "py_str (JStr s) = s"
| "py_str v = py_repr v"

subsection \<open>\<^verbatim>\<open>str.splitlines\<close>, \<^verbatim>\<open>str.upper\<close>, \<^verbatim>\<open>str.lower\<close>\<close>

definition is_linebreak :: "char \<Rightarrow> bool" where
  "is_linebreak c = (c \<in> set [CHR 0x0A, CHR 0x0D, CHR 0x0B, CHR 0x0C, CHR 0x1C, CHR 0x1D, CHR 0x1E, CHR 0x85])"

fun splitlines_from :: "string \<Rightarrow> string \<Rightarrow> string list" where
  "splitlines_from cur [] = (if cur = [] then [] else [cur])"
| "splitlines_from cur [c] = (if is_linebreak c then [cur] else [cur @ [c]])"
| "splitlines_from cur (c # d # cs) =
     (if c = CHR 0x0D \<and> d = CHR 0x0A then cur # splitlines_from [] cs
      else if is_linebreak c then cur # splitlines_from [] (d # cs)
      else splitlines_from (cur @ [c]) (d # cs))"

definition splitlines :: "string \<Rightarrow> string list" where
  "splitlines s = splitlines_from [] s"

text \<open>
  \<^verbatim>\<open>upper\<close> is only ever applied to the six ASCII setting names of the tool, and
  \<^verbatim>\<open>lower\<close> is compared with the ASCII word \<^verbatim>\<open>code\<close>; both are modelled on the
  ASCII letters and leave every other character alone.
\<close>

definition upper_char :: "char \<Rightarrow> char" where
  "upper_char c =
     (case map_of (zip ''abcdefghijklmnopqrstuvwxyz'' ''ABCDEFGHIJKLMNOPQRSTUVWXYZ'') c of
        Some u \<Rightarrow> u
      | None \<Rightarrow> c)"

definition lower_char :: "char \<Rightarrow> char" where
  "lower_char c =
     (case map_of (zip ''ABCDEFGHIJKLMNOPQRSTUVWXYZ'' ''abcdefghijklmnopqrstuvwxyz'') c of
        Some l \<Rightarrow> l
      | None \<Rightarrow> c)"

definition upper :: "string \<Rightarrow> string" where
  "upper s = map upper_char s"

definition lower :: "string \<Rightarrow> string" where
  "lower s = map lower_char s"

subsection \<open>\<^verbatim>\<open>str.format\<close> with named fields\<close>

text \<open>
  A format string is kept in parsed form: literal text (with \<^verbatim>\<open>{{\<close> and \<^verbatim>\<open>}}\<close>
  already read as braces) and named replacement fields. The arguments arrive as the
  \<^verbatim>\<open>str\<close> of each keyword argument. A field without argument raises \<^verbatim>\<open>KeyError\<close>;
  an argument without field is ignored; substituted text is not scanned again.
\<close>

datatype seg = Lit string | Field string

fun format_str :: "seg list \<Rightarrow> (string \<times> string) list \<Rightarrow> error + string" where
  "format_str [] args = Inr []"
| "format_str (Lit s # segs) args =
     (case format_str segs args of Inl e \<Rightarrow> Inl e | Inr t \<Rightarrow> Inr (s @ t))"
| "format_str (Field k # segs) args =
     (case map_of args k of
        None \<Rightarrow> Inl (KeyError k)
      | Some v \<Rightarrow> (case format_str segs args of Inl e \<Rightarrow> Inl e | Inr t \<Rightarrow> Inr (v @ t)))"

fun escape_braces :: "string \<Rightarrow> string" where
  "escape_braces [] = []"
| "escape_braces (c # cs) =
     (if c = CHR ''{'' \<or> c = CHR ''}'' then c # c # escape_braces cs else c # escape_braces cs)"

text \<open>The text of a template as it stands in the prompt library, before any \<^verbatim>\<open>format\<close>.\<close>

fun template_text :: "seg list \<Rightarrow> string" where
  "template_text [] = []"
| "template_text (Lit s # segs) = escape_braces s @ template_text segs"
| "template_text (Field k # segs) = ''{'' @ k @ ''}'' @ template_text segs"

section \<open>The tool and its collaborators\<close>

text \<open>
  \<^verbatim>\<open>CodeRefactorTool\<close> reads its configuration and the prompt library through
  \<^verbatim>\<open>self\<close>, and calls two helpers whose modules are not part of the sources at hand,
  \<^verbatim>\<open>parse_json\<close> and \<^verbatim>\<open>num_tokens_from_string\<close>. All four are fields of one
  environment. \<open>configuration env tool\<close> stands for
  \<^verbatim>\<open>self.configuration["tool_configurations"][tool]["additional_settings"]\<close>: a
  dictionary from setting names to dictionaries holding the key \<^verbatim>\<open>value\<close>.

  The language model is a parameter of the functions that call it, as in the source. Its
  \<^verbatim>\<open>predict\<close> gets the number of calls made before and the prompt, and either raises
  or answers with text. Every function that may call the model returns, next to its
  result, the list of prompts it has sent, oldest first.
\<close>

type_synonym settings = "string \<rightharpoonup> (string \<rightharpoonup> jval)"

record env =
  configuration :: "string \<rightharpoonup> settings"
  get_prompt :: "string \<Rightarrow> string \<Rightarrow> seg list"
  parse_json :: "string \<Rightarrow> error + dict"
  num_tokens_from_string :: "jval \<Rightarrow> error + int"

type_synonym llm = "nat \<Rightarrow> string \<Rightarrow> error + string"

record template =
  name :: string
  description :: string

subsection \<open>\<^verbatim>\<open>get_active_code_refactor_templates\<close>\<close>

definition template_checks :: "(string \<times> string) list" where
  "template_checks =
     [(''security_code_refactor'', ''Security''),
      (''performance_code_refactor'', ''Performance''),
      (''memory_code_refactor'', ''Memory''),
      (''correctness_code_refactor'', ''Correctness''),
      (''maintainability_code_refactor'', ''Maintainability''),
      (''reliability_code_refactor'', ''Reliability'')]"

text \<open>The \<^verbatim>\<open>for\<close> loop over \<^verbatim>\<open>template_checks.items()\<close>, appending to \<^verbatim>\<open>templates\<close>.\<close>

fun collect_templates ::
  "settings \<Rightarrow> (string \<times> string) list \<Rightarrow> template list \<Rightarrow> error + template list" where
  "collect_templates st [] templates = Inr templates"
| "collect_templates st ((setting, descr) # rest) templates =
     (case st (''enable_'' @ setting) of
        None \<Rightarrow> Inl (KeyError (''enable_'' @ setting))
      | Some d \<Rightarrow>
          (case d ''value'' of
             None \<Rightarrow> Inl (KeyError ''value'')
           | Some v \<Rightarrow>
               collect_templates st rest
                 (if truthy v
                  then templates @ [\<lparr>name = upper setting @ ''_TEMPLATE'', description = descr\<rparr>]
                  else templates)))"

definition get_active_code_refactor_templates :: "env \<Rightarrow> string \<Rightarrow> error + template list" where
  "get_active_code_refactor_templates e tool_name =
     (case configuration e tool_name of
        None \<Rightarrow> Inl (KeyError tool_name)
      | Some additional_settings \<Rightarrow> collect_templates additional_settings template_checks [])"

definition get_max_code_refactor_token_count :: "env \<Rightarrow> string \<Rightarrow> error + jval" where
  "get_max_code_refactor_token_count e tool_name =
     (case configuration e tool_name of
        None \<Rightarrow> Inl (KeyError tool_name)
      | Some additional_settings \<Rightarrow>
          (case additional_settings ''max_code_size_tokens'' of
             None \<Rightarrow> Inl (KeyError ''max_code_size_tokens'')
           | Some d \<Rightarrow>
               (case d ''value'' of None \<Rightarrow> Inl (KeyError ''value'') | Some v \<Rightarrow> Inr v)))"

definition is_output_json :: "env \<Rightarrow> string \<Rightarrow> error + jval" where
  "is_output_json e tool_name =
     (case configuration e tool_name of
        None \<Rightarrow> Inl (KeyError tool_name)
      | Some additional_settings \<Rightarrow>
          (case additional_settings ''json_output'' of
             None \<Rightarrow> Inl (KeyError ''json_output'')
           | Some d \<Rightarrow>
               (case d ''value'' of None \<Rightarrow> Inl (KeyError ''value'') | Some v \<Rightarrow> Inr v)))"

subsection \<open>The Concern Registry as the specification words it\<close>

text \<open>
  The specification's \<open>activePasses\<close>: the fixed canonical order, filtered to the enabled
  concerns. It is stated on the set of enabled concerns and compared below with the loop
  of the source.
\<close>

datatype concern = Security | Performance | Memory | Correctness | Maintainability | Reliability

definition canonical_order :: "concern list" where
  "canonical_order = [Security, Performance, Memory, Correctness, Maintainability, Reliability]"

definition activePasses :: "concern set \<Rightarrow> concern list" where
  "activePasses enabledConcerns = filter (\<lambda>c. c \<in> enabledConcerns) canonical_order"

fun concern_setting :: "concern \<Rightarrow> string" where
  "concern_setting Security = ''enable_security_code_refactor''"
| "concern_setting Performance = ''enable_performance_code_refactor''"
| "concern_setting Memory = ''enable_memory_code_refactor''"
| "concern_setting Correctness = ''enable_correctness_code_refactor''"
| "concern_setting Maintainability = ''enable_maintainability_code_refactor''"
| "concern_setting Reliability = ''enable_reliability_code_refactor''"

fun concern_template :: "concern \<Rightarrow> template" where
  "concern_template Security =
     \<lparr>name = ''SECURITY_CODE_REFACTOR_TEMPLATE'', description = ''Security''\<rparr>"
| "concern_template Performance =
     \<lparr>name = ''PERFORMANCE_CODE_REFACTOR_TEMPLATE'', description = ''Performance''\<rparr>"
| "concern_template Memory =
     \<lparr>name = ''MEMORY_CODE_REFACTOR_TEMPLATE'', description = ''Memory''\<rparr>"
| "concern_template Correctness =
     \<lparr>name = ''CORRECTNESS_CODE_REFACTOR_TEMPLATE'', description = ''Correctness''\<rparr>"
| "concern_template Maintainability =
     \<lparr>name = ''MAINTAINABILITY_CODE_REFACTOR_TEMPLATE'', description = ''Maintainability''\<rparr>"
| "concern_template Reliability =
     \<lparr>name = ''RELIABILITY_CODE_REFACTOR_TEMPLATE'', description = ''Reliability''\<rparr>"

text \<open>The value a configuration stores for a concern's switch, if it stores one.\<close>

definition setting_value :: "settings \<Rightarrow> concern \<Rightarrow> jval option" where
  "setting_value st c =
     (case st (concern_setting c) of None \<Rightarrow> None | Some d \<Rightarrow> d ''value'')"

definition enabled_concerns :: "settings \<Rightarrow> concern set" where
  "enabled_concerns st = {c. case setting_value st c of None \<Rightarrow> False | Some v \<Rightarrow> truthy v}"

section \<open>The refactoring passes\<close>

subsection \<open>The prompt of one pass\<close>

text \<open>
  The two \<^verbatim>\<open>format\<close> calls at the head of the loop body of
  \<^verbatim>\<open>_run_code_refactors\<close>: first the final instructions, which take the current
  \<^verbatim>\<open>code\<close>, the metadata and the user's additional instructions, then the template of
  the pass, which takes the base instructions and the final instructions.
\<close>

definition final_code_refactor_instructions :: "env \<Rightarrow> jval \<Rightarrow> jval \<Rightarrow> jval \<Rightarrow> error + string" where
  "final_code_refactor_instructions e code md additional_instructions =
     format_str (get_prompt e ''code_refactor'' ''FINAL_CODE_REFACTOR_INSTRUCTIONS'')
       [(''code_summary'', []),
        (''code_dependencies'', []),
        (''code'', py_str code),
        (''code_metadata'', py_str md),
        (''additional_instructions'', py_str additional_instructions)]"

definition code_refactor_prompt ::
  "env \<Rightarrow> string \<Rightarrow> template \<Rightarrow> jval \<Rightarrow> jval \<Rightarrow> jval \<Rightarrow> error + string" where
  "code_refactor_prompt e base_code_refactor_instructions t code md additional_instructions =
     (case final_code_refactor_instructions e code md additional_instructions of
        Inl err \<Rightarrow> Inl err
      | Inr final \<Rightarrow>
          format_str (get_prompt e ''code_refactor'' (name t))
            [(''base_code_refactor_instructions'', base_code_refactor_instructions),
             (''final_code_refactor_instructions'', final)])"

text \<open>\<^verbatim>\<open>parse_json(llm.predict(prompt), llm)\<close> for the call number \<open>n\<close>.\<close>

definition decoded_reply :: "env \<Rightarrow> llm \<Rightarrow> nat \<Rightarrow> string \<Rightarrow> error + dict" where
  "decoded_reply e llm n prompt =
     (case llm n prompt of Inl err \<Rightarrow> Inl err | Inr json_data \<Rightarrow> parse_json e json_data)"

subsection \<open>The loop over the active templates\<close>

text \<open>
  The loop leaves either through \<^verbatim>\<open>return data['final_answer']\<close> or at the end of
  the template list, with the current \<^verbatim>\<open>code\<close> and \<^verbatim>\<open>refactor_results\<close>. The last
  argument is the list of prompts sent so far.
\<close>

datatype loop_exit = Returned jval | Finished jval "dict list"

fun refactor_loop ::
  "env \<Rightarrow> llm \<Rightarrow> string \<Rightarrow> jval \<Rightarrow> jval \<Rightarrow> template list \<Rightarrow> jval \<Rightarrow> dict list \<Rightarrow> string list
   \<Rightarrow> (error + loop_exit) \<times> string list" where
  "refactor_loop e llm base addl md [] code refactor_results log =
     (Inr (Finished code refactor_results), log)"
| "refactor_loop e llm base addl md (t # templates) code refactor_results log =
     (case code_refactor_prompt e base t code md addl of
        Inl err \<Rightarrow> (Inl err, log)
      | Inr prompt \<Rightarrow>
          (case decoded_reply e llm (length log) prompt of
             Inl err \<Rightarrow> (Inl err, log @ [prompt])
           | Inr data \<Rightarrow>
               (case data ''final_answer'' of
                  Some answer \<Rightarrow> (Inr (Returned answer), log @ [prompt])
                | None \<Rightarrow>
                    (case data ''refactored_code'' of
                       None \<Rightarrow> (Inl (KeyError ''refactored_code''), log @ [prompt])
                     | Some code' \<Rightarrow>
                         refactor_loop e llm base addl md templates code'
                           (refactor_results @ [data(''refactor_type'' \<mapsto> JStr (description t))])
                           (log @ [prompt])))))"

subsection \<open>Compiling the results\<close>

record refactor_thought =
  refactor_type :: jval
  thoughts :: jval

record results =
  language :: jval
  metadata :: jval
  refactor_thoughts :: "refactor_thought list"
  refactored_code :: jval

fun collect_thoughts :: "dict list \<Rightarrow> error + refactor_thought list" where
  "collect_thoughts [] = Inr []"
| "collect_thoughts (refactor # rest) =
     (case refactor ''refactor_type'' of
        None \<Rightarrow> Inl (KeyError ''refactor_type'')
      | Some ty \<Rightarrow>
          (case refactor ''thoughts'' of
             None \<Rightarrow> Inl (KeyError ''thoughts'')
           | Some th \<Rightarrow>
               (case collect_thoughts rest of
                  Inl err \<Rightarrow> Inl err
                | Inr ths \<Rightarrow> Inr (\<lparr>refactor_type = ty, thoughts = th\<rparr> # ths))))"

text \<open>
  After the loop \<^verbatim>\<open>data\<close> is the dictionary of the last pass, the last element of
  \<^verbatim>\<open>refactor_results\<close>; had the loop not run, the name would be unbound.
\<close>

definition compile_results :: "dict list \<Rightarrow> jval \<Rightarrow> error + results" where
  "compile_results refactor_results code =
     (if refactor_results = [] then Inl UnboundLocalError
      else
        (let data = last refactor_results in
         case data ''metadata'' of
           None \<Rightarrow> Inl (KeyError ''metadata'')
         | Some refactor_metadata \<Rightarrow>
             (case data ''language'' of
                None \<Rightarrow> Inl (KeyError ''language'')
              | Some lang \<Rightarrow>
                  (case collect_thoughts refactor_results of
                     Inl err \<Rightarrow> Inl err
                   | Inr ths \<Rightarrow>
                       Inr \<lparr>language = lang, metadata = refactor_metadata,
                            refactor_thoughts = ths, refactored_code = code\<rparr>))))"

text \<open>The \<^verbatim>\<open>results\<close> dictionary itself, with its keys in the order of the literal.\<close>

definition results_dict :: "results \<Rightarrow> jval" where
  "results_dict r =
     JObj [(''language'', language r),
           (''metadata'', metadata r),
           (''refactor_thoughts'',
              JList (map (\<lambda>t. JObj [(''refactor_type'', refactor_type t), (''thoughts'', thoughts t)])
                         (refactor_thoughts r))),
           (''refactored_code'', refactored_code r)]"

subsection \<open>\<^verbatim>\<open>format_refactor_results\<close>\<close>

definition formatted_results_template :: "seg list" where
  "formatted_results_template =
     [Lit ''## Code Refactor\<newline>- Language: **'', Field ''language'',
      Lit ''**\<newline>- File: **'', Field ''filename_or_url'',
      Lit ''**\<newline>\<newline>'', Field ''thoughts'',
      Lit ''\<newline>\<newline>### Refactored Code\<newline>```'', Field ''language'',
      Lit ''\<newline>'', Field ''code'',
      Lit ''\<newline>```\<newline>'']"

definition thought_block :: "refactor_thought \<Rightarrow> string" where
  "thought_block t = ''#### **'' @ py_str (refactor_type t) @ ''**\<newline>- '' @ py_str (thoughts t)"

text \<open>
  \<^verbatim>\<open>metadata["url"] if "url" in metadata else metadata["filename"]\<close>. On anything but
  a dictionary either the membership test or the subscript raises \<^verbatim>\<open>TypeError\<close>.
\<close>

definition filename_or_url :: "jval \<Rightarrow> error + jval" where
  "filename_or_url md =
     (case md of
        JObj kvs \<Rightarrow>
          (if ''url'' \<in> set (map fst kvs)
           then (case map_of kvs ''url'' of None \<Rightarrow> Inl (KeyError ''url'') | Some u \<Rightarrow> Inr u)
           else (case map_of kvs ''filename'' of None \<Rightarrow> Inl (KeyError ''filename'') | Some f \<Rightarrow> Inr f))
      | _ \<Rightarrow> Inl TypeError)"

definition format_refactor_results :: "results \<Rightarrow> error + string" where
  "format_refactor_results refactor_results =
     (let thoughts_text = join ''\<newline>\<newline>'' (map thought_block (refactor_thoughts refactor_results)) in
      case filename_or_url (metadata refactor_results) of
        Inl err \<Rightarrow> Inl err
      | Inr label \<Rightarrow>
          format_str formatted_results_template
            [(''language'', py_str (language refactor_results)),
             (''filename_or_url'', py_str label),
             (''thoughts'', thoughts_text),
             (''code'', py_str (refactored_code refactor_results))])"

subsection \<open>\<^verbatim>\<open>_run_code_refactors\<close>\<close>

text \<open>
  The function is modelled in two steps, cut where the source has built \<^verbatim>\<open>results\<close>:
  \<open>run_passes\<close> covers the lookup of the active templates, the check that there is one,
  the loop and the compilation, \<open>run_code_refactors\<close> adds the choice of the output
  form. A returned string is a \<open>JStr\<close>.
\<close>

datatype outcome = FinalAnswer jval | Report results

definition no_active_templates :: string where
  "no_active_templates =
     ''No active templates found for this tool.  You must enable at least one of the refactoring templates.''"

definition run_passes ::
  "env \<Rightarrow> jval \<Rightarrow> string \<Rightarrow> llm \<Rightarrow> string \<Rightarrow> jval \<Rightarrow> jval \<Rightarrow> (error + outcome) \<times> string list" where
  "run_passes e code base llm tool_name addl md =
     (case get_active_code_refactor_templates e tool_name of
        Inl err \<Rightarrow> (Inl err, [])
      | Inr templates \<Rightarrow>
          (if length templates = 0 then (Inl (PyException no_active_templates), [])
           else
             (case refactor_loop e llm base addl md templates code [] [] of
                (Inl err, log) \<Rightarrow> (Inl err, log)
              | (Inr (Returned answer), log) \<Rightarrow> (Inr (FinalAnswer answer), log)
              | (Inr (Finished code' refactor_results), log) \<Rightarrow>
                  (case compile_results refactor_results code' of
                     Inl err \<Rightarrow> (Inl err, log)
                   | Inr res \<Rightarrow> (Inr (Report res), log)))))"

definition run_code_refactors ::
  "env \<Rightarrow> jval \<Rightarrow> string \<Rightarrow> llm \<Rightarrow> string \<Rightarrow> jval \<Rightarrow> jval \<Rightarrow> (error + jval) \<times> string list" where
  "run_code_refactors e code base llm tool_name addl md =
     (case run_passes e code base llm tool_name addl md of
        (Inl err, log) \<Rightarrow> (Inl err, log)
      | (Inr (FinalAnswer answer), log) \<Rightarrow> (Inr answer, log)
      | (Inr (Report res), log) \<Rightarrow>
          (case is_output_json e tool_name of
             Inl err \<Rightarrow> (Inl err, log)
           | Inr flag \<Rightarrow>
               (if truthy flag
                then (Inr (JStr (''```json\<newline>'' @ py_str (results_dict res) @ ''\<newline>```'')), log)
                else (case format_refactor_results res of
                        Inl err \<Rightarrow> (Inl err, log)
                      | Inr text \<Rightarrow> (Inr (JStr text), log)))))"

subsection \<open>\<^verbatim>\<open>_conduct_code_refactor\<close>\<close>

definition number_lines :: "string list \<Rightarrow> string list" where
  "number_lines ls = map (\<lambda>(line_num, line). show_nat (line_num + 1) @ '': '' @ line) (enumerate 0 ls)"

definition conduct_code_refactor ::
  "env \<Rightarrow> string \<Rightarrow> llm \<Rightarrow> string \<Rightarrow> jval \<Rightarrow> jval \<Rightarrow> (error + jval) \<times> string list" where
  "conduct_code_refactor e file_data llm tool_name addl md =
     (let code_with_line_numbers = JList (map JStr (number_lines (splitlines file_data)));
          code_refactor_format_instructions =
            template_text (get_prompt e ''code_refactor'' ''CODE_REFACTOR_FORMAT_TEMPLATE'')
      in case format_str (get_prompt e ''code_refactor'' ''BASE_CODE_REFACTOR_INSTRUCTIONS_TEMPLATE'')
                [(''format_instructions'', code_refactor_format_instructions)] of
           Inl err \<Rightarrow> (Inl err, [])
         | Inr base \<Rightarrow> run_code_refactors e code_with_line_numbers base llm tool_name addl md)"

subsection \<open>The two entry points that reach the passes\<close>

text \<open>
  \<^verbatim>\<open>file_info\<close> is the dictionary the retriever delivered; \<^verbatim>\<open>pop\<close> takes the content
  out of it and what remains is the metadata. The model obtained from \<^verbatim>\<open>get_tool_llm\<close>
  is the parameter \<open>llm\<close>. The parameter \<^verbatim>\<open>target_url\<close> is not used by the source.
\<close>

definition exceeds :: "int \<Rightarrow> jval \<Rightarrow> error + bool" where
  "exceeds n m =
     (case m of
        JInt k \<Rightarrow> Inr (n > k)
      | JBool b \<Rightarrow> Inr (n > (if b then 1 else 0))
      | _ \<Rightarrow> Inl TypeError)"

definition too_large_message :: "int \<Rightarrow> string" where
  "too_large_message code_file_token_count =
     ''File is too large to be refactored ('' @ show_int code_file_token_count
     @ '' tokens). Adjust max code refactor tokens, or refactor this code file so that it''
     @ [CHR 0x27] @ ''s smaller.''"

definition refactor_file_from_url ::
  "env \<Rightarrow> llm \<Rightarrow> (string \<times> jval) list \<Rightarrow> string \<Rightarrow> jval \<Rightarrow> (error + jval) \<times> string list" where
  "refactor_file_from_url e llm file_info target_url addl =
     (let file_data = (case map_of file_info ''file_content'' of None \<Rightarrow> JNull | Some v \<Rightarrow> v);
          file_info' = filter (\<lambda>kv. fst kv \<noteq> ''file_content'') file_info
      in case num_tokens_from_string e file_data of
           Inl err \<Rightarrow> (Inl err, [])
         | Inr code_file_token_count \<Rightarrow>
             (case get_max_code_refactor_token_count e ''conduct_code_refactor_from_url'' of
                Inl err \<Rightarrow> (Inl err, [])
              | Inr max_token_count \<Rightarrow>
                  (case exceeds code_file_token_count max_token_count of
                     Inl err \<Rightarrow> (Inl err, [])
                   | Inr over \<Rightarrow>
                       (if over then (Inr (JStr (too_large_message code_file_token_count)), [])
                        else
                          (case file_data of
                             JStr text \<Rightarrow>
                               conduct_code_refactor e text llm ''conduct_code_refactor_from_url''
                                 addl (JObj file_info')
                           | _ \<Rightarrow> (Inl AttributeError, []))))))"

text \<open>
  The file model and the decoded file content come from the database, which is outside
  the tool; they are arguments here.
\<close>

record file_model =
  file_classification :: string
  file_name :: string

definition file_is_not_code :: string where
  "file_is_not_code =
     ''File is not code. Please select a code file to conduct a refactor on, or use a different tool.''"

definition conduct_code_refactor_from_file_id ::
  "env \<Rightarrow> llm \<Rightarrow> file_model \<Rightarrow> string \<Rightarrow> jval \<Rightarrow> (error + jval) \<times> string list" where
  "conduct_code_refactor_from_file_id e llm fm file_data additional_instructions =
     (let addl =
            (if truthy additional_instructions
             then JStr (''\<newline>--- ADDITIONAL INSTRUCTIONS ---\<newline>'' @ py_str additional_instructions
                        @ ''\<newline>--- ADDITIONAL INSTRUCTIONS ---\<newline>'')
             else additional_instructions)
      in if lower (file_classification fm) \<noteq> ''code'' then (Inr (JStr file_is_not_code), [])
         else conduct_code_refactor e file_data llm ''conduct_code_refactor_from_file_id'' addl
                (JObj [(''filename'', JStr (file_name fm))]))"

section \<open>Stand-ins for the collaborators, for concrete runs\<close>

text \<open>
  The prompt library below keeps, for each template of
  \<^verbatim>\<open>src/ai/prompts/openai/code_refactor.py\<close>, its replacement fields, their order and
  the text that frames them, and cuts the long prose between them down to its opening
  sentence.
\<close>

definition final_code_refactor_instructions_template :: "seg list" where
  "final_code_refactor_instructions_template =
     [Lit ''\<newline>----- CODE METADATA -----\<newline>'', Field ''code_metadata'',
      Lit ''\<newline>----- CODE METADATA -----\<newline>'', Field ''code_summary'',
      Lit ''\<newline>'', Field ''code_dependencies'',
      Lit ''\<newline>----- CODE TO REFACTOR -----\<newline>'', Field ''code'',
      Lit ''\<newline>----- CODE TO REFACTOR -----\<newline>'', Field ''additional_instructions'',
      Lit ''\<newline>Take a deep breath, and think this through step-by-step.\<newline>'']"

definition concern_prompt :: "string \<Rightarrow> seg list" where
  "concern_prompt topic =
     [Field ''base_code_refactor_instructions'',
      Lit (''\<newline>\<newline>You are conducting a code refactor specifically related to '' @ topic @ ''.\<newline>\<newline>''),
      Field ''final_code_refactor_instructions'',
      Lit ''\<newline>'']"

definition short_prompts :: "string \<Rightarrow> string \<Rightarrow> seg list" where
  \<open>short_prompts category prompt_name =
     (case map_of
        [(''BASE_CODE_REFACTOR_INSTRUCTIONS_TEMPLATE'',
            [Lit ''Your code refactor output should be in JSON format.\<newline>\<newline>'',
             Field ''format_instructions'', Lit ''\<newline>'']),
         (''CODE_REFACTOR_FORMAT_TEMPLATE'',
            [Lit ''The expected json output format is as follows:\<newline>{"language": "string", "metadata": "dict", "thoughts": "string", "refactored_code": "string"}\<newline>'']),
         (''FINAL_CODE_REFACTOR_INSTRUCTIONS'', final_code_refactor_instructions_template),
         (''SECURITY_CODE_REFACTOR_TEMPLATE'', concern_prompt ''security vulnerabilities''),
         (''PERFORMANCE_CODE_REFACTOR_TEMPLATE'', concern_prompt ''performance issues''),
         (''MEMORY_CODE_REFACTOR_TEMPLATE'', concern_prompt ''memory management issues''),
         (''CORRECTNESS_CODE_REFACTOR_TEMPLATE'', concern_prompt ''code correctness issues''),
         (''MAINTAINABILITY_CODE_REFACTOR_TEMPLATE'', concern_prompt ''maintainability issues''),
         (''RELIABILITY_CODE_REFACTOR_TEMPLATE'', concern_prompt ''reliability issues'')]
        prompt_name of
        Some t \<Rightarrow> t
      | None \<Rightarrow> [])\<close>

text \<open>A configuration with the six switches, the token limit and the output form.\<close>

definition tool_settings :: "concern list \<Rightarrow> bool \<Rightarrow> int \<Rightarrow> settings" where
  "tool_settings enabled json_output max_tokens =
     map_of (map (\<lambda>c. (concern_setting c, [''value'' \<mapsto> JBool (c \<in> set enabled)])) canonical_order
             @ [(''max_code_size_tokens'', [''value'' \<mapsto> JInt max_tokens]),
                (''json_output'', [''value'' \<mapsto> JBool json_output])])"

text \<open>
  A decoder that knows the replies of one run by heart, a token counter that reports a
  fixed count, and a model that answers its \<open>n\<close>-th call with the \<open>n\<close>-th scripted reply.
\<close>

definition table_parse :: "(string \<times> (string \<times> jval) list) list \<Rightarrow> string \<Rightarrow> error + dict" where
  "table_parse table json_data =
     (case map_of table json_data of
        None \<Rightarrow> Inl (CollaboratorError ''parse_json'')
      | Some kvs \<Rightarrow> Inr (map_of kvs))"

definition demo_env ::
  "concern list \<Rightarrow> bool \<Rightarrow> int \<Rightarrow> (string \<times> (string \<times> jval) list) list \<Rightarrow> int \<Rightarrow> env" where
  "demo_env enabled json_output max_tokens table tokens =
     \<lparr>configuration = (\<lambda>tool_name. Some (tool_settings enabled json_output max_tokens)),
      get_prompt = short_prompts,
      parse_json = table_parse table,
      num_tokens_from_string = (\<lambda>file_data. Inr tokens)\<rparr>"

definition scripted_llm :: "string list \<Rightarrow> llm" where
  "scripted_llm replies n prompt =
     (if n < length replies then Inr (replies ! n) else Inl (CollaboratorError ''predict''))"

text \<open>The replies used in the runs below, each with what the decoder makes of it.\<close>

definition reply_spaced :: string where
  \<open>reply_spaced = ''{"language": "python", "metadata": {"filename": "a.py"}, "thoughts": "Spacing.", "refactored_code": "a = 1  # spaced"}''\<close>

definition data_spaced :: "(string \<times> jval) list" where
  "data_spaced =
     [(''language'', JStr ''python''), (''metadata'', JObj [(''filename'', JStr ''a.py'')]),
      (''thoughts'', JStr ''Spacing.''), (''refactored_code'', JStr ''a = 1  # spaced'')]"

definition reply_no_code :: string where
  \<open>reply_no_code = ''{"language": "python", "metadata": {"filename": "a.py"}, "thoughts": "Nothing to do."}''\<close>

definition data_no_code :: "(string \<times> jval) list" where
  "data_no_code =
     [(''language'', JStr ''python''), (''metadata'', JObj [(''filename'', JStr ''a.py'')]),
      (''thoughts'', JStr ''Nothing to do.'')]"

definition reply_other_metadata :: string where
  \<open>reply_other_metadata = ''{"language": "python", "metadata": {"filename": "b.py"}, "thoughts": "Renamed.", "refactored_code": "b = 2"}''\<close>

definition data_other_metadata :: "(string \<times> jval) list" where
  "data_other_metadata =
     [(''language'', JStr ''python''), (''metadata'', JObj [(''filename'', JStr ''b.py'')]),
      (''thoughts'', JStr ''Renamed.''), (''refactored_code'', JStr ''b = 2'')]"

definition reply_no_language :: string where
  \<open>reply_no_language = ''{"metadata": {"filename": "a.py"}, "thoughts": "Spacing.", "refactored_code": "a = 1  # spaced"}''\<close>

definition data_no_language :: "(string \<times> jval) list" where
  "data_no_language =
     [(''metadata'', JObj [(''filename'', JStr ''a.py'')]),
      (''thoughts'', JStr ''Spacing.''), (''refactored_code'', JStr ''a = 1  # spaced'')]"

definition reply_refusal :: string where
  \<open>reply_refusal = ''{"final_answer": "I cannot return the full code."}''\<close>

definition data_refusal :: "(string \<times> jval) list" where
  "data_refusal = [(''final_answer'', JStr ''I cannot return the full code.'')]"

definition demo_table :: "(string \<times> (string \<times> jval) list) list" where
  "demo_table =
     [(reply_spaced, data_spaced), (reply_no_code, data_no_code),
      (reply_other_metadata, data_other_metadata), (reply_no_language, data_no_language),
      (reply_refusal, data_refusal)]"

text \<open>
  Concrete runs: a file \<^verbatim>\<open>a.py\<close> holding \<^verbatim>\<open>a=1\<close>, taken from the database, with the
  listed concerns enabled and the listed replies scripted. The first two start at
  \<^verbatim>\<open>_run_code_refactors\<close> with the numbered line as code, the third at
  \<^verbatim>\<open>_conduct_code_refactor\<close>.
\<close>

definition file_metadata :: jval where
  "file_metadata = JObj [(''filename'', JStr ''a.py'')]"

definition demo_passes :: "concern list \<Rightarrow> string list \<Rightarrow> (error + outcome) \<times> string list" where
  "demo_passes enabled replies =
     run_passes (demo_env enabled False 4000 demo_table 3) (JList [JStr ''1: a=1''])
       ''Your code refactor output should be in JSON format.'' (scripted_llm replies)
       ''conduct_code_refactor_from_file_id'' JNull file_metadata"

definition demo_run :: "concern list \<Rightarrow> string list \<Rightarrow> (error + jval) \<times> string list" where
  "demo_run enabled replies =
     run_code_refactors (demo_env enabled False 4000 demo_table 3) (JList [JStr ''1: a=1''])
       ''Your code refactor output should be in JSON format.'' (scripted_llm replies)
       ''conduct_code_refactor_from_file_id'' JNull file_metadata"

definition demo_conduct :: "concern list \<Rightarrow> bool \<Rightarrow> string list \<Rightarrow> (error + jval) \<times> string list" where
  "demo_conduct enabled json_output replies =
     conduct_code_refactor (demo_env enabled json_output 4000 demo_table 3) ''a=1''
       (scripted_llm replies) ''conduct_code_refactor_from_file_id'' JNull file_metadata"

text \<open>A report as \<^verbatim>\<open>format_refactor_results\<close> receives it, for a given metadata value.\<close>

definition demo_results :: "jval \<Rightarrow> results" where
  "demo_results md =
     \<lparr>language = JStr ''python'', metadata = md,
      refactor_thoughts = [\<lparr>refactor_type = JStr ''Security'', thoughts = JStr ''Spacing.''\<rparr>],
      refactored_code = JStr ''a = 1  # spaced''\<rparr>"

text \<open>The same run from \<^verbatim>\<open>_conduct_code_refactor\<close>, for a file content of one's choice.\<close>

definition demo_conduct_on :: "string \<Rightarrow> concern list \<Rightarrow> string list \<Rightarrow> (error + jval) \<times> string list" where
  "demo_conduct_on file_data enabled replies =
     conduct_code_refactor (demo_env enabled False 4000 demo_table 3) file_data
       (scripted_llm replies) ''conduct_code_refactor_from_file_id'' JNull file_metadata"

section \<open>The Concern Registry\<close>

text \<open>
  The table the source iterates over is the canonical order of the specification, each
  concern with the name of its switch (without the prefix) and its description.
\<close>

lemma template_checks_canonical:
  "template_checks =
   map (\<lambda>c. (drop 7 (concern_setting c), description (concern_template c))) canonical_order"
  by (simp add: template_checks_def canonical_order_def)

lemma collect_templates_step:
  "st (concern_setting c) = Some d \<Longrightarrow> d ''value'' = Some v \<Longrightarrow>
   collect_templates st ((drop 7 (concern_setting c), description (concern_template c)) # rest) acc =
   collect_templates st rest (if truthy v then acc @ [concern_template c] else acc)"
  by (cases c) (simp_all add: upper_def upper_char_def)

lemma collect_templates_filter:
  assumes "\<And>c. setting_value st c \<noteq> None"
  shows "collect_templates st
           (map (\<lambda>c. (drop 7 (concern_setting c), description (concern_template c))) cs) acc =
         Inr (acc @ map concern_template (filter (\<lambda>c. c \<in> enabled_concerns st) cs))"
proof (induction cs arbitrary: acc)
  case Nil
  then show ?case by simp
next
  case (Cons c cs)
  from assms obtain v where v: "setting_value st c = Some v" by blast
  then obtain d where d: "st (concern_setting c) = Some d" "d ''value'' = Some v"
    by (auto simp: setting_value_def split: option.splits)
  have en: "c \<in> enabled_concerns st \<longleftrightarrow> truthy v"
    by (simp add: enabled_concerns_def v)
  have "collect_templates st
          (map (\<lambda>c. (drop 7 (concern_setting c), description (concern_template c))) (c # cs)) acc
      = collect_templates st
          (map (\<lambda>c. (drop 7 (concern_setting c), description (concern_template c))) cs)
          (if truthy v then acc @ [concern_template c] else acc)"
    using collect_templates_step [of st c d v] d by simp
  then show ?case
    using en Cons.IH by simp
qed

lemma get_active_spec:
  assumes "configuration e tool_name = Some st" and "\<forall>c. setting_value st c \<noteq> None"
  shows "get_active_code_refactor_templates e tool_name =
         Inr (map concern_template (activePasses (enabled_concerns st)))"
proof -
  from assms(2) have "\<And>c. setting_value st c \<noteq> None" by blast
  from collect_templates_filter [OF this, of canonical_order "[]"] assms(1) show ?thesis
    by (simp add: get_active_code_refactor_templates_def template_checks_canonical activePasses_def)
qed

text \<open>The stand-in configuration stores all six switches and enables the listed concerns.\<close>

lemma tool_settings_value:
  "setting_value (tool_settings enabled j m) c = Some (JBool (c \<in> set enabled))"
  by (cases c) (simp_all add: setting_value_def tool_settings_def canonical_order_def)

lemma tool_settings_enabled: "enabled_concerns (tool_settings enabled j m) = set enabled"
  by (auto simp: enabled_concerns_def tool_settings_value)

section \<open>How the loop runs\<close>

text \<open>The five ways in which one turn of the loop can go.\<close>

lemma refactor_loop_Cons_cases:
  assumes "refactor_loop e llm base addl md (t # ts) code rs log0 = (r, log)"
  obtains
    (prompt_error) err where
      "code_refactor_prompt e base t code md addl = Inl err" "r = Inl err" "log = log0"
  | (reply_error) p err where
      "code_refactor_prompt e base t code md addl = Inr p"
      "decoded_reply e llm (length log0) p = Inl err" "r = Inl err" "log = log0 @ [p]"
  | (final_answer) p d v where
      "code_refactor_prompt e base t code md addl = Inr p"
      "decoded_reply e llm (length log0) p = Inr d" "d ''final_answer'' = Some v"
      "r = Inr (Returned v)" "log = log0 @ [p]"
  | (no_code) p d where
      "code_refactor_prompt e base t code md addl = Inr p"
      "decoded_reply e llm (length log0) p = Inr d" "d ''final_answer'' = None"
      "d ''refactored_code'' = None" "r = Inl (KeyError ''refactored_code'')" "log = log0 @ [p]"
  | (next_pass) p d c where
      "code_refactor_prompt e base t code md addl = Inr p"
      "decoded_reply e llm (length log0) p = Inr d" "d ''final_answer'' = None"
      "d ''refactored_code'' = Some c"
      "refactor_loop e llm base addl md ts c
         (rs @ [d(''refactor_type'' \<mapsto> JStr (description t))]) (log0 @ [p]) = (r, log)"
proof (cases "code_refactor_prompt e base t code md addl")
  case (Inl err)
  with assms prompt_error show ?thesis by simp
next
  case p: (Inr p)
  show ?thesis
  proof (cases "decoded_reply e llm (length log0) p")
    case (Inl err)
    with assms p reply_error show ?thesis by simp
  next
    case d: (Inr d)
    show ?thesis
    proof (cases "d ''final_answer''")
      case (Some v)
      with assms p d final_answer show ?thesis by simp
    next
      case None
      show ?thesis
      proof (cases "d ''refactored_code''")
        case nc: None
        with assms p d None no_code show ?thesis by simp
      next
        case (Some c)
        with assms p d None next_pass show ?thesis by simp
      qed
    qed
  qed
qed

text \<open>The loop only ever adds prompts to the log, at most one for each template.\<close>

lemma refactor_loop_log:
  "refactor_loop e llm base addl md ts code rs log0 = (r, log) \<Longrightarrow>
   \<exists>ps. log = log0 @ ps \<and> length ps \<le> length ts"
proof (induction ts arbitrary: code rs log0)
  case Nil
  then show ?case by simp
next
  case (Cons t ts)
  from Cons.prems show ?case
  proof (cases rule: refactor_loop_Cons_cases)
    case (next_pass p d c)
    from Cons.IH [OF next_pass(5)] show ?thesis by auto
  qed auto
qed

lemma refactor_loop_keeps:
  assumes "refactor_loop e llm base addl md ts code rs log0 = (r, log)" and "i < length log0"
  shows "log ! i = log0 ! i" and "length log0 \<le> length log"
  using refactor_loop_log [OF assms(1)] assms(2) by (auto simp: nth_append)

text \<open>The first prompt the loop sends is built from the code it was started with.\<close>

lemma refactor_loop_first:
  assumes "refactor_loop e llm base addl md ts code rs log0 = (r, log)"
    and "length log0 < length log"
  shows "ts \<noteq> [] \<and> code_refactor_prompt e base (ts ! 0) code md addl = Inr (log ! length log0)"
proof (cases ts)
  case Nil
  with assms show ?thesis by simp
next
  case (Cons t ts')
  from assms(1) [unfolded Cons] show ?thesis
  proof (cases rule: refactor_loop_Cons_cases)
    case (prompt_error err)
    with assms(2) show ?thesis by simp
  next
    case (next_pass p d c)
    from refactor_loop_keeps(1) [OF next_pass(5), of "length log0"]
    have "log ! length log0 = p" by simp
    with next_pass(1) Cons show ?thesis by simp
  qed (simp_all add: Cons)
qed

text \<open>Every later prompt is built from the \<^verbatim>\<open>refactored_code\<close> of the reply before it.\<close>

lemma refactor_loop_chain:
  "refactor_loop e llm base addl md ts code rs log0 = (r, log) \<Longrightarrow>
   length log0 + Suc i < length log \<Longrightarrow>
   \<exists>d c. decoded_reply e llm (length log0 + i) (log ! (length log0 + i)) = Inr d
        \<and> d ''final_answer'' = None \<and> d ''refactored_code'' = Some c
        \<and> Suc i < length ts
        \<and> code_refactor_prompt e base (ts ! Suc i) c md addl = Inr (log ! (length log0 + Suc i))"
proof (induction ts arbitrary: code rs log0 i)
  case Nil
  then show ?case by simp
next
  case (Cons t ts)
  from Cons.prems(1) show ?case
  proof (cases rule: refactor_loop_Cons_cases)
    case (next_pass p d c)
    have p: "log ! length log0 = p"
      using refactor_loop_keeps(1) [OF next_pass(5), of "length log0"] by simp
    show ?thesis
    proof (cases i)
      case 0
      from Cons.prems(2) 0 have "length (log0 @ [p]) < length log" by simp
      from refactor_loop_first [OF next_pass(5) this]
      have "ts \<noteq> []" and "code_refactor_prompt e base (ts ! 0) c md addl = Inr (log ! Suc (length log0))"
        by simp_all
      with next_pass p 0 show ?thesis by simp
    next
      case (Suc j)
      from Cons.prems(2) Suc have "length (log0 @ [p]) + Suc j < length log" by simp
      from Cons.IH [OF next_pass(5) this] Suc show ?thesis by simp
    qed
  qed (use Cons.prems(2) in simp_all)
qed

text \<open>A reply that holds \<^verbatim>\<open>final_answer\<close> ends the run with that value.\<close>

lemma refactor_loop_final_answer:
  "refactor_loop e llm base addl md ts code rs log0 = (r, log) \<Longrightarrow>
   length log0 + i < length log \<Longrightarrow>
   decoded_reply e llm (length log0 + i) (log ! (length log0 + i)) = Inr d \<Longrightarrow>
   d ''final_answer'' = Some v \<Longrightarrow>
   r = Inr (Returned v) \<and> length log = length log0 + Suc i"
proof (induction ts arbitrary: code rs log0 i)
  case Nil
  then show ?case by simp
next
  case (Cons t ts)
  from Cons.prems(1) show ?case
  proof (cases rule: refactor_loop_Cons_cases)
    case (next_pass p d' c)
    have p: "log ! length log0 = p"
      using refactor_loop_keeps(1) [OF next_pass(5), of "length log0"] by simp
    show ?thesis
    proof (cases i)
      case 0
      with Cons.prems(3,4) next_pass(2,3) p show ?thesis by simp
    next
      case (Suc j)
      from Cons.prems(2) Suc have "length (log0 @ [p]) + j < length log" by simp
      moreover from Cons.prems(3) Suc
      have "decoded_reply e llm (length (log0 @ [p]) + j) (log ! (length (log0 @ [p]) + j)) = Inr d"
        by simp
      ultimately show ?thesis
        using Cons.IH [OF next_pass(5) _ _ Cons.prems(4)] Suc by simp
    qed
  qed (use Cons.prems in \<open>auto simp: nth_append\<close>)
qed

text \<open>A reply with neither \<^verbatim>\<open>final_answer\<close> nor \<^verbatim>\<open>refactored_code\<close> ends the run with the key error.\<close>

lemma refactor_loop_no_code:
  "refactor_loop e llm base addl md ts code rs log0 = (r, log) \<Longrightarrow>
   length log0 + i < length log \<Longrightarrow>
   decoded_reply e llm (length log0 + i) (log ! (length log0 + i)) = Inr d \<Longrightarrow>
   d ''final_answer'' = None \<Longrightarrow> d ''refactored_code'' = None \<Longrightarrow>
   r = Inl (KeyError ''refactored_code'') \<and> length log = length log0 + Suc i"
proof (induction ts arbitrary: code rs log0 i)
  case Nil
  then show ?case by simp
next
  case (Cons t ts)
  from Cons.prems(1) show ?case
  proof (cases rule: refactor_loop_Cons_cases)
    case (next_pass p d' c)
    have p: "log ! length log0 = p"
      using refactor_loop_keeps(1) [OF next_pass(5), of "length log0"] by simp
    show ?thesis
    proof (cases i)
      case 0
      with Cons.prems(3,5) next_pass(2,4) p show ?thesis by simp
    next
      case (Suc j)
      from Cons.prems(2) Suc have "length (log0 @ [p]) + j < length log" by simp
      moreover from Cons.prems(3) Suc
      have "decoded_reply e llm (length (log0 @ [p]) + j) (log ! (length (log0 @ [p]) + j)) = Inr d"
        by simp
      ultimately show ?thesis
        using Cons.IH [OF next_pass(5) _ _ Cons.prems(4,5)] Suc by simp
    qed
  qed (use Cons.prems in \<open>auto simp: nth_append\<close>)
qed

text \<open>
  A loop that runs to its end has sent one prompt for each template, and the dictionary
  of its last pass is the decoded reply to the last prompt, with the type of the pass
  added.
\<close>

lemma refactor_loop_finished:
  "refactor_loop e llm base addl md ts code rs log0 = (Inr (Finished c rs'), log) \<Longrightarrow>
   ts \<noteq> [] \<Longrightarrow>
   length log = length log0 + length ts \<and> rs' \<noteq> [] \<and>
   (\<exists>d. decoded_reply e llm (length log - 1) (last log) = Inr d
       \<and> d ''final_answer'' = None \<and> d ''refactored_code'' = Some c
       \<and> last rs' = d(''refactor_type'' \<mapsto> JStr (description (last ts))))"
proof (induction ts arbitrary: code rs log0)
  case Nil
  then show ?case by simp
next
  case (Cons t ts)
  from Cons.prems(1) show ?case
  proof (cases rule: refactor_loop_Cons_cases)
    case (next_pass p d c')
    show ?thesis
    proof (cases ts)
      case Nil
      with next_pass show ?thesis by auto
    next
      case (Cons t' ts')
      then have ne: "ts \<noteq> []" by simp
      from Cons.IH [OF next_pass(5) ne] ne show ?thesis by auto
    qed
  qed simp_all
qed

section \<open>From the loop to the whole function\<close>

lemma run_passes_loop:
  assumes "run_passes e code base llm tool_name addl md = (r, log)" and "log \<noteq> []"
  obtains ts lr where "get_active_code_refactor_templates e tool_name = Inr ts" "ts \<noteq> []"
    "refactor_loop e llm base addl md ts code [] [] = (lr, log)"
    "\<And>err. lr = Inl err \<Longrightarrow> r = Inl err"
    "\<And>v. lr = Inr (Returned v) \<Longrightarrow> r = Inr (FinalAnswer v)"
    "\<And>c rs. lr = Inr (Finished c rs) \<Longrightarrow>
        r = (case compile_results rs c of Inl err \<Rightarrow> Inl err | Inr res \<Rightarrow> Inr (Report res))"
proof (cases "get_active_code_refactor_templates e tool_name")
  case (Inl err)
  with assms show ?thesis by (simp add: run_passes_def)
next
  case (Inr ts)
  show ?thesis
  proof (cases "ts = []")
    case True
    with Inr assms show ?thesis by (simp add: run_passes_def)
  next
    case False
    obtain lr log' where l: "refactor_loop e llm base addl md ts code [] [] = (lr, log')"
      by (cases "refactor_loop e llm base addl md ts code [] []")
    with Inr False assms(1) have "log' = log"
      by (auto simp: run_passes_def split: sum.splits loop_exit.splits)
    with l Inr False assms(1) that [of ts lr] show ?thesis
      by (auto simp: run_passes_def split: sum.splits loop_exit.splits)
  qed
qed

lemma run_code_refactors_passes:
  assumes "run_code_refactors e code base llm tool_name addl md = (r, log)"
  obtains pr where "run_passes e code base llm tool_name addl md = (pr, log)"
    "\<And>err. pr = Inl err \<Longrightarrow> r = Inl err"
    "\<And>v. pr = Inr (FinalAnswer v) \<Longrightarrow> r = Inr v"
proof -
  obtain pr log' where p: "run_passes e code base llm tool_name addl md = (pr, log')"
    by (cases "run_passes e code base llm tool_name addl md")
  with assms have "log' = log"
    by (auto simp: run_code_refactors_def split: sum.splits outcome.splits if_splits)
  with p assms that [of pr] show ?thesis
    by (auto simp: run_code_refactors_def split: sum.splits outcome.splits if_splits)
qed

lemma run_passes_report:
  assumes "run_passes e code base llm tool_name addl md = (Inr (Report res), log)"
  obtains ts c rs where "get_active_code_refactor_templates e tool_name = Inr ts" "ts \<noteq> []"
    "refactor_loop e llm base addl md ts code [] [] = (Inr (Finished c rs), log)"
    "compile_results rs c = Inr res"
  using assms
  by (auto simp: run_passes_def split: sum.splits if_splits prod.splits loop_exit.splits)

lemma compile_results_fields:
  assumes "compile_results rs c = Inr res"
  shows "rs \<noteq> []" and "last rs ''metadata'' = Some (metadata res)"
    and "last rs ''language'' = Some (language res)" and "refactored_code res = c"
  using assms
  by (auto simp: compile_results_def Let_def split: if_splits option.splits sum.splits)

lemma run_code_refactors_chain:
  assumes "run_code_refactors e code base llm tool_name addl md = (r, log)"
    and "get_active_code_refactor_templates e tool_name = Inr ts"
  shows "length log \<le> length ts
       \<and> (log \<noteq> [] \<longrightarrow> code_refactor_prompt e base (ts ! 0) code md addl = Inr (log ! 0))
       \<and> (\<forall>i. Suc i < length log \<longrightarrow>
            (\<exists>d c. decoded_reply e llm i (log ! i) = Inr d \<and> d ''refactored_code'' = Some c
                  \<and> code_refactor_prompt e base (ts ! Suc i) c md addl = Inr (log ! Suc i)))"
proof (cases "log = []")
  case True
  then show ?thesis by simp
next
  case False
  from assms(1) obtain pr where pr: "run_passes e code base llm tool_name addl md = (pr, log)"
    by (rule run_code_refactors_passes) (blast?)
  from pr False obtain ts' lr where "get_active_code_refactor_templates e tool_name = Inr ts'"
    and loop: "refactor_loop e llm base addl md ts' code [] [] = (lr, log)"
    by (rule run_passes_loop) (blast?)
  with assms(2) have ts: "ts' = ts" by simp
  from refactor_loop_log [OF loop] have len: "length log \<le> length ts" by (auto simp: ts)
  from False refactor_loop_first [OF loop]
  have first: "code_refactor_prompt e base (ts ! 0) code md addl = Inr (log ! 0)" by (simp add: ts)
  have "\<exists>d c. decoded_reply e llm i (log ! i) = Inr d \<and> d ''refactored_code'' = Some c
              \<and> code_refactor_prompt e base (ts ! Suc i) c md addl = Inr (log ! Suc i)"
    if "Suc i < length log" for i
    using refactor_loop_chain [OF loop, of i] that by (auto simp: ts)
  with len first show ?thesis by blast
qed

section \<open>The stand-ins at work\<close>

lemma demo_table_lookup:
  "map_of demo_table reply_spaced = Some data_spaced"
  "map_of demo_table reply_no_code = Some data_no_code"
  "map_of demo_table reply_other_metadata = Some data_other_metadata"
  "map_of demo_table reply_no_language = Some data_no_language"
  "map_of demo_table reply_refusal = Some data_refusal"
  by (simp_all add: demo_table_def reply_spaced_def reply_no_code_def
        reply_other_metadata_def reply_no_language_def reply_refusal_def)

lemma decoded_scripted:
  "n < length replies \<Longrightarrow> map_of table (replies ! n) = Some kvs \<Longrightarrow>
   decoded_reply (demo_env enabled j m table tok) (scripted_llm replies) n p = Inr (map_of kvs)"
  by (simp add: decoded_reply_def scripted_llm_def demo_env_def table_parse_def)

lemma demo_env_active:
  "get_active_code_refactor_templates (demo_env enabled j m table tok) tool_name =
   Inr (map concern_template (activePasses (set enabled)))"
  using get_active_spec [of "demo_env enabled j m table tok" tool_name "tool_settings enabled j m"]
  by (simp add: demo_env_def tool_settings_value tool_settings_enabled)

section \<open>What a prompt contains\<close>

lemma format_str_contains:
  "format_str segs args = Inr s \<Longrightarrow> Field k \<in> set segs \<Longrightarrow> map_of args k = Some v \<Longrightarrow>
   sublist v s"
proof (induction segs arbitrary: s)
  case Nil
  then show ?case by simp
next
  case (Cons g segs)
  show ?case
  proof (cases g)
    case (Lit l)
    with Cons.prems obtain t where t: "format_str segs args = Inr t" "s = l @ t"
      by (auto split: sum.splits)
    with Cons.prems Lit have "sublist v t" using Cons.IH by auto
    with t show ?thesis by (auto simp: sublist_append)
  next
    case (Field k')
    with Cons.prems obtain w t where t: "map_of args k' = Some w" "format_str segs args = Inr t"
        "s = w @ t"
      by (auto split: sum.splits option.splits)
    show ?thesis
    proof (cases "k' = k")
      case True
      with t Cons.prems(3) have "s = v @ t" by simp
      then show ?thesis by (metis sublist_appendI append_Nil)
    next
      case False
      with Cons.prems Field t have "sublist v t" using Cons.IH by auto
      with t show ?thesis by (auto simp: sublist_append)
    qed
  qed
qed

lemma code_refactor_prompt_contains:
  assumes "code_refactor_prompt e base t code md addl = Inr p"
    and "Field ''code'' \<in> set (get_prompt e ''code_refactor'' ''FINAL_CODE_REFACTOR_INSTRUCTIONS'')"
    and "Field ''final_code_refactor_instructions'' \<in> set (get_prompt e ''code_refactor'' (name t))"
  shows "sublist (py_str code) p"
proof -
  from assms(1) obtain final where
    f: "final_code_refactor_instructions e code md addl = Inr final"
    and p: "format_str (get_prompt e ''code_refactor'' (name t))
              [(''base_code_refactor_instructions'', base),
               (''final_code_refactor_instructions'', final)] = Inr p"
    by (auto simp: code_refactor_prompt_def split: sum.splits)
  from f assms(2) have "sublist (py_str code) final"
    unfolding final_code_refactor_instructions_def
    by (rule format_str_contains) simp
  moreover from p assms(3) have "sublist final p"
    by (rule format_str_contains) simp
  ultimately show ?thesis
    by (rule sublist_order.order.trans)
qed

lemma number_lines_nth:
  "k < length ls \<Longrightarrow> number_lines ls ! k = show_nat (Suc k) @ '': '' @ ls ! k"
  by (simp add: number_lines_def nth_enumerate_eq)

text \<open>The prompt of a pass, written out as the two \<^verbatim>\<open>format\<close> calls that make it.\<close>

lemma code_refactor_prompt_formats:
  "code_refactor_prompt e base t code md addl = Inr p \<longleftrightarrow>
   (\<exists>final.
      format_str (get_prompt e ''code_refactor'' ''FINAL_CODE_REFACTOR_INSTRUCTIONS'')
        [(''code_summary'', []), (''code_dependencies'', []), (''code'', py_str code),
         (''code_metadata'', py_str md), (''additional_instructions'', py_str addl)] = Inr final
    \<and> format_str (get_prompt e ''code_refactor'' (name t))
        [(''base_code_refactor_instructions'', base),
         (''final_code_refactor_instructions'', final)] = Inr p)"
  by (auto simp: code_refactor_prompt_def final_code_refactor_instructions_def split: sum.splits)

section \<open>C1: each pass works on the output of the pass before\<close>

text \<open>
  C1 as stated does not hold for the first pass. For the artifact of the two lines
  \<^verbatim>\<open>a=1\<close> and \<^verbatim>\<open>b=2\<close> the prompt of the first pass does not contain the artifact
  text; it contains the Python list of its numbered lines. Accordingly the two artifacts
  \<^verbatim>\<open>a=1\<close> with and without a final line break, which differ, lead to the same prompts.
\<close>

theorem first_pass_text_counterexample:
  "length (snd (demo_conduct_on ''a=1\<newline>b=2'' [Security] [reply_spaced])) = 1
   \<and> \<not> sublist ''a=1\<newline>b=2'' (snd (demo_conduct_on ''a=1\<newline>b=2'' [Security] [reply_spaced]) ! 0)
   \<and> sublist ''['1: a=1', '2: b=2']''
        (snd (demo_conduct_on ''a=1\<newline>b=2'' [Security] [reply_spaced]) ! 0)
   \<and> ''a=1'' \<noteq> ''a=1\<newline>''
   \<and> snd (demo_conduct_on ''a=1'' [Security] [reply_spaced])
       = snd (demo_conduct_on ''a=1\<newline>'' [Security] [reply_spaced])"
  by code_simp

text \<open>
  C1 (chain invariant), amended. In every run of \<^verbatim>\<open>_conduct_code_refactor\<close> at most
  one prompt is sent for each active template, and the prompt of pass \<open>i\<close> is the template
  of pass \<open>i\<close>, in the order of the active templates, filled with the base instructions
  and with the final instructions, whose field \<^verbatim>\<open>code\<close> is filled with the \<^verbatim>\<open>str\<close> of
  the code of that pass. The code of pass \<open>i + 1\<close> is exactly the \<^verbatim>\<open>refactored_code\<close>
  of the decoded reply of pass \<open>i\<close>, byte for byte for a string; the code of pass 1 is
  not the artifact text itself but the list of its lines, each with its 1-based number in
  front. Where the templates have the two fields, that text occurs in the prompt as it is.
\<close>

theorem chain_of_prompts:
  assumes "conduct_code_refactor e file_data llm tool_name addl md = (r, log)"
    and "get_active_code_refactor_templates e tool_name = Inr ts"
  shows "length log \<le> length ts
       \<and> (\<forall>i < length log. \<exists>base final code.
            format_str (get_prompt e ''code_refactor'' ''BASE_CODE_REFACTOR_INSTRUCTIONS_TEMPLATE'')
              [(''format_instructions'',
                template_text (get_prompt e ''code_refactor'' ''CODE_REFACTOR_FORMAT_TEMPLATE''))]
              = Inr base
          \<and> (case i of
                0 \<Rightarrow> code = JList (map JStr (number_lines (splitlines file_data)))
              | Suc j \<Rightarrow> (\<exists>d. decoded_reply e llm j (log ! j) = Inr d
                              \<and> d ''refactored_code'' = Some code))
          \<and> format_str (get_prompt e ''code_refactor'' ''FINAL_CODE_REFACTOR_INSTRUCTIONS'')
              [(''code_summary'', []), (''code_dependencies'', []), (''code'', py_str code),
               (''code_metadata'', py_str md), (''additional_instructions'', py_str addl)]
              = Inr final
          \<and> format_str (get_prompt e ''code_refactor'' (name (ts ! i)))
              [(''base_code_refactor_instructions'', base),
               (''final_code_refactor_instructions'', final)]
              = Inr (log ! i)
          \<and> (Field ''code''
                \<in> set (get_prompt e ''code_refactor'' ''FINAL_CODE_REFACTOR_INSTRUCTIONS'') \<longrightarrow>
              Field ''final_code_refactor_instructions''
                \<in> set (get_prompt e ''code_refactor'' (name (ts ! i))) \<longrightarrow>
              sublist (py_str code) (log ! i)))"
proof (cases "log = []")
  case True
  then show ?thesis by simp
next
  case False
  let ?first = "JList (map JStr (number_lines (splitlines file_data)))"
  from assms(1) False obtain base where
    base: "format_str (get_prompt e ''code_refactor'' ''BASE_CODE_REFACTOR_INSTRUCTIONS_TEMPLATE'')
             [(''format_instructions'',
               template_text (get_prompt e ''code_refactor'' ''CODE_REFACTOR_FORMAT_TEMPLATE''))]
             = Inr base"
    and run: "run_code_refactors e ?first base llm tool_name addl md = (r, log)"
    by (auto simp: conduct_code_refactor_def Let_def split: sum.splits)
  note chain = run_code_refactors_chain [OF run assms(2)]
  from chain have len: "length log \<le> length ts" by simp
  have pass: "\<exists>final code.
        (case i of
           0 \<Rightarrow> code = ?first
         | Suc j \<Rightarrow> (\<exists>d. decoded_reply e llm j (log ! j) = Inr d \<and> d ''refactored_code'' = Some code))
      \<and> format_str (get_prompt e ''code_refactor'' ''FINAL_CODE_REFACTOR_INSTRUCTIONS'')
          [(''code_summary'', []), (''code_dependencies'', []), (''code'', py_str code),
           (''code_metadata'', py_str md), (''additional_instructions'', py_str addl)]
          = Inr final
      \<and> format_str (get_prompt e ''code_refactor'' (name (ts ! i)))
          [(''base_code_refactor_instructions'', base),
           (''final_code_refactor_instructions'', final)]
          = Inr (log ! i)
      \<and> (Field ''code''
            \<in> set (get_prompt e ''code_refactor'' ''FINAL_CODE_REFACTOR_INSTRUCTIONS'') \<longrightarrow>
          Field ''final_code_refactor_instructions''
            \<in> set (get_prompt e ''code_refactor'' (name (ts ! i))) \<longrightarrow>
          sublist (py_str code) (log ! i))"
    if i: "i < length log" for i
  proof -
    have "\<exists>code. (case i of
           0 \<Rightarrow> code = ?first
         | Suc j \<Rightarrow> (\<exists>d. decoded_reply e llm j (log ! j) = Inr d \<and> d ''refactored_code'' = Some code))
       \<and> code_refactor_prompt e base (ts ! i) code md addl = Inr (log ! i)"
    proof (cases i)
      case 0
      with chain False show ?thesis by simp
    next
      case (Suc j)
      with chain i show ?thesis by auto
    qed
    then obtain code where c: "case i of
           0 \<Rightarrow> code = ?first
         | Suc j \<Rightarrow> (\<exists>d. decoded_reply e llm j (log ! j) = Inr d \<and> d ''refactored_code'' = Some code)"
      and p: "code_refactor_prompt e base (ts ! i) code md addl = Inr (log ! i)"
      by blast
    from p obtain final where
      f: "format_str (get_prompt e ''code_refactor'' ''FINAL_CODE_REFACTOR_INSTRUCTIONS'')
          [(''code_summary'', []), (''code_dependencies'', []), (''code'', py_str code),
           (''code_metadata'', py_str md), (''additional_instructions'', py_str addl)]
          = Inr final"
      and g: "format_str (get_prompt e ''code_refactor'' (name (ts ! i)))
          [(''base_code_refactor_instructions'', base),
           (''final_code_refactor_instructions'', final)]
          = Inr (log ! i)"
      unfolding code_refactor_prompt_formats by blast
    from code_refactor_prompt_contains [OF p]
    have "Field ''code''
            \<in> set (get_prompt e ''code_refactor'' ''FINAL_CODE_REFACTOR_INSTRUCTIONS'') \<Longrightarrow>
          Field ''final_code_refactor_instructions''
            \<in> set (get_prompt e ''code_refactor'' (name (ts ! i))) \<Longrightarrow>
          sublist (py_str code) (log ! i)"
      by blast
    with c f g show ?thesis by blast
  qed
  from len base pass show ?thesis by blast
qed

text \<open>
  Witness for C1, amended: the artifact of two lines, Security and Performance enabled
  and two well-formed replies. Two prompts are sent; the first contains the list of the
  two numbered lines, the second the \<^verbatim>\<open>refactored_code\<close> of the first reply.
\<close>

theorem chain_of_prompts_witness:
  "length (snd (demo_conduct_on ''a=1\<newline>b=2'' [Security, Performance]
                  [reply_spaced, reply_other_metadata])) = 2
   \<and> sublist ''['1: a=1', '2: b=2']''
        (snd (demo_conduct_on ''a=1\<newline>b=2'' [Security, Performance]
                [reply_spaced, reply_other_metadata]) ! 0)
   \<and> sublist ''a = 1  # spaced''
        (snd (demo_conduct_on ''a=1\<newline>b=2'' [Security, Performance]
                [reply_spaced, reply_other_metadata]) ! 1)"
proof -
  let ?e = "demo_env [Security, Performance] False 4000 demo_table 3"
  let ?llm = "scripted_llm [reply_spaced, reply_other_metadata]"
  let ?run = "demo_conduct_on ''a=1\<newline>b=2'' [Security, Performance]
                [reply_spaced, reply_other_metadata]"
  let ?ts = "[concern_template Security, concern_template Performance]"
  have run: "conduct_code_refactor ?e ''a=1\<newline>b=2'' ?llm ''conduct_code_refactor_from_file_id'' JNull
               file_metadata = (fst ?run, snd ?run)"
    by (simp add: demo_conduct_on_def)
  have ts: "get_active_code_refactor_templates ?e ''conduct_code_refactor_from_file_id'' = Inr ?ts"
    by (simp add: demo_env_active activePasses_def canonical_order_def)
  have c: "Field ''code'' \<in> set (get_prompt ?e ''code_refactor'' ''FINAL_CODE_REFACTOR_INSTRUCTIONS'')"
    by (simp add: demo_env_def short_prompts_def final_code_refactor_instructions_template_def)
  have f: "Field ''final_code_refactor_instructions''
             \<in> set (get_prompt ?e ''code_refactor'' (name (?ts ! 0)))"
     "Field ''final_code_refactor_instructions''
             \<in> set (get_prompt ?e ''code_refactor'' (name (?ts ! 1)))"
    by (simp_all add: demo_env_def short_prompts_def concern_prompt_def)
  have len: "length (snd ?run) = 2"
    by code_simp
  have code: "py_str (JList (map JStr (number_lines (splitlines ''a=1\<newline>b=2'')))) = ''['1: a=1', '2: b=2']''"
    by code_simp
  have d: "decoded_reply ?e ?llm 0 p = Inr (map_of data_spaced)" for p
    by (simp add: decoded_scripted demo_table_lookup)
  have p0: "sublist ''['1: a=1', '2: b=2']'' (snd ?run ! 0)"
    using chain_of_prompts [OF run ts, THEN conjunct2, THEN spec, of 0] len c f(1) code
    by auto
  have p1: "sublist ''a = 1  # spaced'' (snd ?run ! 1)"
    using chain_of_prompts [OF run ts, THEN conjunct2, THEN spec, of 1] len c f(2) d
    by (auto simp: data_spaced_def)
  from len p0 p1 show ?thesis by simp
qed

section \<open>C2: the budget guard\<close>

text \<open>
  C2 as stated does not hold. With a limit of 10 tokens and a file counted at 50, the run
  from a URL stops before any call of the model, but the explanation it returns names the
  count of 50 only; the limit of 10 does not occur in it.
\<close>

theorem budget_message_counterexample:
  \<open>refactor_file_from_url (demo_env [Security] False 10 demo_table 50) (scripted_llm [reply_spaced])
     [(''url'', JStr ''https://example.org/a.py''), (''file_content'', JStr ''a=1'')]
     ''https://example.org/a.py'' JNull
   = (Inr (JStr ''File is too large to be refactored (50 tokens). Adjust max code refactor tokens, or refactor this code file so that it's smaller.''), [])
   \<and> \<not> sublist (show_int 10)
         ''File is too large to be refactored (50 tokens). Adjust max code refactor tokens, or refactor this code file so that it's smaller.''\<close>
  by code_simp

text \<open>
  C2, amended. For a run that enters through \<^verbatim>\<open>_refactor_file_from_url\<close>: if the token
  count of the file content exceeds the configured \<^verbatim>\<open>max_code_size_tokens\<close>, the run
  returns the explanation at once, no call of the model has been made, and the
  explanation names the token count of the file.
\<close>

theorem budget_guard_from_url:
  assumes "num_tokens_from_string e
             (case map_of file_info ''file_content'' of None \<Rightarrow> JNull | Some v \<Rightarrow> v) = Inr n"
    and "get_max_code_refactor_token_count e ''conduct_code_refactor_from_url'' = Inr (JInt m)"
    and "m < n"
  shows "refactor_file_from_url e llm file_info target_url addl
           = (Inr (JStr (too_large_message n)), [])
       \<and> sublist (show_int n) (too_large_message n)"
proof -
  have "sublist (show_int n) (too_large_message n)"
    unfolding too_large_message_def by (rule sublist_appendI)
  with assms show ?thesis
    by (simp add: refactor_file_from_url_def exceeds_def)
qed

text \<open>Witness for C2, amended: limit 10, count 50.\<close>

theorem budget_guard_from_url_witness:
  "refactor_file_from_url (demo_env [Security] False 10 demo_table 50) (scripted_llm [reply_spaced])
     [(''url'', JStr ''https://example.org/a.py''), (''file_content'', JStr ''a=1'')]
     ''https://example.org/a.py'' JNull
   = (Inr (JStr (too_large_message 50)), [])
   \<and> sublist ''50'' (too_large_message 50)"
proof -
  let ?e = "demo_env [Security] False 10 demo_table 50"
  let ?info = "[(''url'', JStr ''https://example.org/a.py''), (''file_content'', JStr ''a=1'')]"
  have n: "num_tokens_from_string ?e
             (case map_of ?info ''file_content'' of None \<Rightarrow> JNull | Some v \<Rightarrow> v) = Inr 50"
    by (simp add: demo_env_def)
  have m: "get_max_code_refactor_token_count ?e ''conduct_code_refactor_from_url'' = Inr (JInt 10)"
    by (simp add: get_max_code_refactor_token_count_def demo_env_def tool_settings_def
          canonical_order_def)
  have lt: "(10::int) < 50" by simp
  have s: "show_int 50 = ''50''" by code_simp
  from budget_guard_from_url [OF n m lt] s show ?thesis by simp
qed

text \<open>
  The entry point that takes the file from the database has no such check: with the same
  limit of 10 and the same count of 50 the model is called.
\<close>

lemma file_id_entry_calls_the_model:
  "length (snd (conduct_code_refactor_from_file_id (demo_env [Security] False 10 demo_table 50)
      (scripted_llm [reply_spaced]) \<lparr>file_classification = ''Code'', file_name = ''a.py''\<rparr>
      ''a=1'' JNull)) = 1"
  by code_simp

section \<open>C3: a reply with \<^verbatim>\<open>final_answer\<close>\<close>

text \<open>
  C3. If the decoded reply of any pass \<open>i\<close> holds the key \<^verbatim>\<open>final_answer\<close>, the run
  ends with this pass and returns the value stored under that key as it is: no report is
  compiled, and nothing of what the passes before have produced is part of the result.
\<close>

theorem final_answer_returned_verbatim:
  assumes "run_code_refactors e code base llm tool_name addl md = (r, log)"
    and "i < length log"
    and "decoded_reply e llm i (log ! i) = Inr d"
    and "d ''final_answer'' = Some v"
  shows "r = Inr v \<and> length log = Suc i
       \<and> run_passes e code base llm tool_name addl md = (Inr (FinalAnswer v), log)"
proof -
  from assms(1) obtain pr where pr: "run_passes e code base llm tool_name addl md = (pr, log)"
    and fa: "\<And>v. pr = Inr (FinalAnswer v) \<Longrightarrow> r = Inr v"
    by (rule run_code_refactors_passes) (blast?)
  from assms(2) have ne: "log \<noteq> []" by auto
  from pr ne obtain ts lr where loop: "refactor_loop e llm base addl md ts code [] [] = (lr, log)"
    and ret: "\<And>v. lr = Inr (Returned v) \<Longrightarrow> pr = Inr (FinalAnswer v)"
    by (rule run_passes_loop) (blast?)
  from refactor_loop_final_answer [OF loop, of i d v] assms(2-4)
  have "lr = Inr (Returned v)" and len: "length log = Suc i" by simp_all
  with ret have "pr = Inr (FinalAnswer v)" by simp
  with fa pr len show ?thesis by simp
qed

text \<open>
  Witness for C3: the Security pass succeeds, the reply of the Performance pass is a
  refusal; the run returns the refusal text after two calls.
\<close>

theorem final_answer_returned_verbatim_witness:
  "demo_run [Security, Performance] [reply_spaced, reply_refusal] =
     (Inr (JStr ''I cannot return the full code.''),
      snd (demo_run [Security, Performance] [reply_spaced, reply_refusal]))
   \<and> length (snd (demo_run [Security, Performance] [reply_spaced, reply_refusal])) = 2"
proof -
  let ?e = "demo_env [Security, Performance] False 4000 demo_table 3"
  let ?llm = "scripted_llm [reply_spaced, reply_refusal]"
  let ?run = "demo_run [Security, Performance] [reply_spaced, reply_refusal]"
  have run: "run_code_refactors ?e (JList [JStr ''1: a=1''])
       ''Your code refactor output should be in JSON format.'' ?llm
       ''conduct_code_refactor_from_file_id'' JNull file_metadata = (fst ?run, snd ?run)"
    by (simp add: demo_run_def)
  have i: "1 < length (snd ?run)"
    by code_simp
  have d: "decoded_reply ?e ?llm 1 (snd ?run ! 1) = Inr (map_of data_refusal)"
    by (simp add: decoded_scripted demo_table_lookup)
  have f: "map_of data_refusal ''final_answer'' = Some (JStr ''I cannot return the full code.'')"
    by (simp add: data_refusal_def)
  from final_answer_returned_verbatim [OF run i d f] show ?thesis
    by (simp add: prod_eq_iff)
qed

section \<open>C4: a reply without \<^verbatim>\<open>refactored_code\<close>\<close>

text \<open>
  C4 as stated does not hold. Security and Performance are enabled, the Security pass
  succeeds and the reply of the Performance pass has no \<^verbatim>\<open>refactored_code\<close>. The run
  ends with the key error, which carries the name of the key; the raw reply is not in it.
\<close>

theorem malformed_reply_counterexample:
  "fst (demo_conduct [Security, Performance] False [reply_spaced, reply_no_code])
     = Inl (KeyError ''refactored_code'')
   \<and> \<not> sublist reply_no_code ''refactored_code''"
  by code_simp

text \<open>
  C4, amended. If the decoded reply of any pass \<open>i\<close> has neither \<^verbatim>\<open>final_answer\<close> nor
  \<^verbatim>\<open>refactored_code\<close>, the run halts at this pass by raising the key error for
  \<^verbatim>\<open>refactored_code\<close>: no further call of the model is made and no report, partial
  or complete, is returned.
\<close>

theorem missing_refactored_code_raises:
  assumes "run_code_refactors e code base llm tool_name addl md = (r, log)"
    and "i < length log"
    and "decoded_reply e llm i (log ! i) = Inr d"
    and "d ''final_answer'' = None" and "d ''refactored_code'' = None"
  shows "r = Inl (KeyError ''refactored_code'') \<and> length log = Suc i"
proof -
  from assms(1) obtain pr where pr: "run_passes e code base llm tool_name addl md = (pr, log)"
    and er: "\<And>err. pr = Inl err \<Longrightarrow> r = Inl err"
    by (rule run_code_refactors_passes) (blast?)
  from assms(2) have ne: "log \<noteq> []" by auto
  from pr ne obtain ts lr where loop: "refactor_loop e llm base addl md ts code [] [] = (lr, log)"
    and ler: "\<And>err. lr = Inl err \<Longrightarrow> pr = Inl err"
    by (rule run_passes_loop) (blast?)
  from refactor_loop_no_code [OF loop, of i d] assms(2-5)
  have "lr = Inl (KeyError ''refactored_code'')" and len: "length log = Suc i" by simp_all
  with ler er show ?thesis by simp
qed

text \<open>Witness for C4, amended: the run of the counterexample, started at \<^verbatim>\<open>_run_code_refactors\<close>.\<close>

theorem missing_refactored_code_raises_witness:
  "demo_run [Security, Performance] [reply_spaced, reply_no_code] =
     (Inl (KeyError ''refactored_code''),
      snd (demo_run [Security, Performance] [reply_spaced, reply_no_code]))
   \<and> length (snd (demo_run [Security, Performance] [reply_spaced, reply_no_code])) = 2"
proof -
  let ?e = "demo_env [Security, Performance] False 4000 demo_table 3"
  let ?llm = "scripted_llm [reply_spaced, reply_no_code]"
  let ?run = "demo_run [Security, Performance] [reply_spaced, reply_no_code]"
  have run: "run_code_refactors ?e (JList [JStr ''1: a=1''])
       ''Your code refactor output should be in JSON format.'' ?llm
       ''conduct_code_refactor_from_file_id'' JNull file_metadata = (fst ?run, snd ?run)"
    by (simp add: demo_run_def)
  have i: "1 < length (snd ?run)"
    by code_simp
  have d: "decoded_reply ?e ?llm 1 (snd ?run ! 1) = Inr (map_of data_no_code)"
    by (simp add: decoded_scripted demo_table_lookup)
  have f: "map_of data_no_code ''final_answer'' = None" "map_of data_no_code ''refactored_code'' = None"
    by (simp_all add: data_no_code_def)
  from missing_refactored_code_raises [OF run i d f] show ?thesis
    by (simp add: prod_eq_iff)
qed

text \<open>
  The other fields of a reply are looked up only after the loop: a reply of an earlier
  pass that lacks \<^verbatim>\<open>language\<close> does not stop the run.
\<close>

lemma missing_language_in_an_earlier_pass_is_not_noticed:
  "fst (demo_passes [Security, Performance] [reply_no_language, reply_other_metadata]) =
     Inr (Report \<lparr>language = JStr ''python'', metadata = JObj [(''filename'', JStr ''b.py'')],
                  refactor_thoughts = [\<lparr>refactor_type = JStr ''Security'', thoughts = JStr ''Spacing.''\<rparr>,
                                       \<lparr>refactor_type = JStr ''Performance'', thoughts = JStr ''Renamed.''\<rparr>],
                  refactored_code = JStr ''b = 2''\<rparr>)"
  by code_simp

section \<open>C5: the order of the passes\<close>

text \<open>
  C5. The templates the tool activates are the canonical order Security, Performance,
  Memory, Correctness, Maintainability, Reliability filtered to the enabled concerns, and
  two configurations that enable the same set of concerns activate the same sequence.
\<close>

theorem active_templates_canonical_order:
  assumes "configuration e tool_name = Some st" and "\<forall>c. setting_value st c \<noteq> None"
  shows "get_active_code_refactor_templates e tool_name =
           Inr (map concern_template (activePasses (enabled_concerns st)))
       \<and> (\<forall>e' tool_name' st'.
             configuration e' tool_name' = Some st' \<longrightarrow> (\<forall>c. setting_value st' c \<noteq> None) \<longrightarrow>
             enabled_concerns st' = enabled_concerns st \<longrightarrow>
             get_active_code_refactor_templates e' tool_name' =
             get_active_code_refactor_templates e tool_name)"
  using assms by (simp add: get_active_spec)

text \<open>
  Witness for C5: Memory and Security enabled, listed in two different ways in two
  configurations that also differ in every other setting.
\<close>

theorem active_templates_canonical_order_witness:
  "get_active_code_refactor_templates (demo_env [Memory, Security] False 4000 [] 0) ''conduct_code_refactor_from_url''
     = Inr [\<lparr>name = ''SECURITY_CODE_REFACTOR_TEMPLATE'', description = ''Security''\<rparr>,
            \<lparr>name = ''MEMORY_CODE_REFACTOR_TEMPLATE'', description = ''Memory''\<rparr>]
   \<and> get_active_code_refactor_templates (demo_env [Security, Memory, Security] True 10 [] 7) ''conduct_code_refactor_from_file_id''
     = get_active_code_refactor_templates (demo_env [Memory, Security] False 4000 [] 0) ''conduct_code_refactor_from_url''"
proof -
  let ?e = "demo_env [Memory, Security] False 4000 [] 0"
  let ?st = "tool_settings [Memory, Security] False 4000"
  let ?e' = "demo_env [Security, Memory, Security] True 10 [] 7"
  let ?st' = "tool_settings [Security, Memory, Security] True 10"
  have c: "configuration ?e ''conduct_code_refactor_from_url'' = Some ?st"
    by (simp add: demo_env_def)
  have p: "\<forall>c. setting_value ?st c \<noteq> None"
    by (simp add: tool_settings_value)
  have c': "configuration ?e' ''conduct_code_refactor_from_file_id'' = Some ?st'"
    by (simp add: demo_env_def)
  have p': "\<forall>c. setting_value ?st' c \<noteq> None"
    by (simp add: tool_settings_value)
  have s: "enabled_concerns ?st' = enabled_concerns ?st"
    by (auto simp: tool_settings_enabled)
  have a: "activePasses (enabled_concerns ?st) = [Security, Memory]"
    by (simp add: tool_settings_enabled activePasses_def canonical_order_def)
  from active_templates_canonical_order [OF c p] c' p' s a show ?thesis
    by simp
qed

section \<open>C6: no concern enabled\<close>

text \<open>
  C6. If the configuration enables no concern, \<^verbatim>\<open>_run_code_refactors\<close> raises the
  exception that asks for at least one refactoring template, and no call of the model has
  been made; a run that enters through \<^verbatim>\<open>_conduct_code_refactor\<close> fails as well, also
  without a call.
\<close>

theorem no_active_templates_is_an_error:
  assumes "configuration e tool_name = Some st" and "\<forall>c. setting_value st c \<noteq> None"
    and "enabled_concerns st = {}"
  shows "run_code_refactors e code base llm tool_name addl md =
           (Inl (PyException no_active_templates), [])
       \<and> snd (conduct_code_refactor e file_data llm tool_name addl md) = []
       \<and> (\<exists>err. fst (conduct_code_refactor e file_data llm tool_name addl md) = Inl err)"
proof -
  from get_active_spec [OF assms(1,2)] assms(3)
  have "get_active_code_refactor_templates e tool_name = Inr []"
    by (simp add: activePasses_def)
  then have run: "run_code_refactors e c b llm tool_name addl md =
      (Inl (PyException no_active_templates), [])" for c b
    by (simp add: run_code_refactors_def run_passes_def)
  then show ?thesis
    by (auto simp: conduct_code_refactor_def Let_def split: sum.splits)
qed

text \<open>Witness for C6: the stand-in configuration with all six switches off.\<close>

theorem no_active_templates_is_an_error_witness:
  "demo_run [] [reply_spaced] = (Inl (PyException no_active_templates), [])
   \<and> snd (demo_conduct [] False [reply_spaced]) = []"
proof -
  let ?e = "demo_env [] False 4000 demo_table 3"
  have c: "configuration ?e ''conduct_code_refactor_from_file_id'' = Some (tool_settings [] False 4000)"
    by (simp add: demo_env_def)
  have p: "\<forall>c. setting_value (tool_settings [] False 4000) c \<noteq> None"
    by (simp add: tool_settings_value)
  have n: "enabled_concerns (tool_settings [] False 4000) = {}"
    by (simp add: tool_settings_enabled)
  from no_active_templates_is_an_error [OF c p n] show ?thesis
    by (simp add: demo_run_def demo_conduct_def)
qed

section \<open>C7: the structured output\<close>

text \<open>
  C7. With \<^verbatim>\<open>json_output\<close> on, the source returns \<^verbatim>\<open>f"```json\n{results}\n```"\<close>,
  that is the \<^verbatim>\<open>str\<close> of the Python dictionary between the fences. For the run of one
  Security pass over \<^verbatim>\<open>a=1\<close> the text returned is the one below: keys and strings are
  in single quotes, which JSON does not have.
\<close>

theorem json_output_is_python_repr:
  \<open>fst (demo_conduct [Security] True [reply_spaced]) =
     Inr (JStr ''```json\<newline>{'language': 'python', 'metadata': {'filename': 'a.py'}, 'refactor_thoughts': [{'refactor_type': 'Security', 'thoughts': 'Spacing.'}], 'refactored_code': 'a = 1  # spaced'}\<newline>```'')\<close>
  by code_simp

section \<open>C8: the metadata of the report\<close>

text \<open>
  C8 as stated does not hold. The artifact has the metadata \<^verbatim>\<open>{'filename': 'a.py'}\<close>;
  the model's reply carries \<^verbatim>\<open>{"filename": "b.py"}\<close> as its metadata, and that is what
  the report of the completed run holds.
\<close>

theorem report_metadata_counterexample:
  "fst (demo_passes [Security] [reply_other_metadata]) =
     Inr (Report \<lparr>language = JStr ''python'', metadata = JObj [(''filename'', JStr ''b.py'')],
                  refactor_thoughts = [\<lparr>refactor_type = JStr ''Security'', thoughts = JStr ''Renamed.''\<rparr>],
                  refactored_code = JStr ''b = 2''\<rparr>)
   \<and> JObj [(''filename'', JStr ''b.py'')] \<noteq> file_metadata"
  by code_simp

text \<open>
  C8, amended. For every completed run the metadata of the report is the \<^verbatim>\<open>metadata\<close>
  field of the decoded reply of the last pass; the metadata of the artifact is what every
  prompt of the run is built with, the same value for each pass.
\<close>

theorem report_metadata_from_last_reply:
  assumes "run_passes e code base llm tool_name addl md = (Inr (Report res), log)"
  shows "log \<noteq> []
       \<and> (\<exists>d. decoded_reply e llm (length log - 1) (last log) = Inr d
              \<and> d ''metadata'' = Some (metadata res))
       \<and> (\<forall>i < length log. \<exists>t c. code_refactor_prompt e base t c md addl = Inr (log ! i))"
proof -
  from assms obtain ts c rs where ts: "ts \<noteq> []"
    and loop: "refactor_loop e llm base addl md ts code [] [] = (Inr (Finished c rs), log)"
    and comp: "compile_results rs c = Inr res"
    by (rule run_passes_report)
  from refactor_loop_finished [OF loop ts] obtain d where len: "length log = length ts"
    and d: "decoded_reply e llm (length log - 1) (last log) = Inr d"
    and l: "last rs = d(''refactor_type'' \<mapsto> JStr (description (last ts)))"
    by auto
  from compile_results_fields(2) [OF comp] l have md: "d ''metadata'' = Some (metadata res)"
    by simp
  have "\<exists>t c. code_refactor_prompt e base t c md addl = Inr (log ! i)" if "i < length log" for i
  proof (cases i)
    case 0
    with refactor_loop_first [OF loop] that show ?thesis by auto
  next
    case (Suc j)
    with refactor_loop_chain [OF loop, of j] that show ?thesis by auto
  qed
  with len ts d md show ?thesis by auto
qed

text \<open>Witness for C8, amended: the run of the counterexample.\<close>

theorem report_metadata_from_last_reply_witness:
  "length (snd (demo_passes [Security] [reply_other_metadata])) = 1
   \<and> (\<exists>d. decoded_reply (demo_env [Security] False 4000 demo_table 3)
             (scripted_llm [reply_other_metadata]) 0
             (last (snd (demo_passes [Security] [reply_other_metadata]))) = Inr d
          \<and> d ''metadata'' = Some (JObj [(''filename'', JStr ''b.py'')]))"
proof -
  let ?run = "demo_passes [Security] [reply_other_metadata]"
  let ?res = "\<lparr>language = JStr ''python'', metadata = JObj [(''filename'', JStr ''b.py'')],
               refactor_thoughts = [\<lparr>refactor_type = JStr ''Security'', thoughts = JStr ''Renamed.''\<rparr>],
               refactored_code = JStr ''b = 2''\<rparr>"
  have "fst ?run = Inr (Report ?res)"
    by code_simp
  then have run: "run_passes (demo_env [Security] False 4000 demo_table 3) (JList [JStr ''1: a=1''])
       ''Your code refactor output should be in JSON format.'' (scripted_llm [reply_other_metadata])
       ''conduct_code_refactor_from_file_id'' JNull file_metadata = (Inr (Report ?res), snd ?run)"
    by (simp add: demo_passes_def prod_eq_iff)
  have len: "length (snd ?run) = 1"
    by code_simp
  from report_metadata_from_last_reply [OF run] len show ?thesis
    by simp
qed

section \<open>C9: line numbers in the prompts\<close>

text \<open>
  C9 as stated does not hold. In a run of two passes over \<^verbatim>\<open>a=1\<close> the first prompt
  holds the numbered line \<^verbatim>\<open>1: a=1\<close>; the second prompt holds the code returned by the
  first pass, \<^verbatim>\<open>a = 1  # spaced\<close>, and no line number in front of it.
\<close>

theorem later_prompts_not_numbered_counterexample:
  "length (snd (demo_conduct [Security, Performance] False [reply_spaced, reply_other_metadata])) = 2
   \<and> sublist ''1: a=1''
        (snd (demo_conduct [Security, Performance] False [reply_spaced, reply_other_metadata]) ! 0)
   \<and> sublist ''a = 1  # spaced''
        (snd (demo_conduct [Security, Performance] False [reply_spaced, reply_other_metadata]) ! 1)
   \<and> \<not> sublist ''1: a = 1  # spaced''
        (snd (demo_conduct [Security, Performance] False [reply_spaced, reply_other_metadata]) ! 1)"
  by code_simp

text \<open>
  C9, amended. For a prompt library whose final instructions have the field \<^verbatim>\<open>code\<close> and
  whose pass templates have the field \<^verbatim>\<open>final_code_refactor_instructions\<close>: the prompt
  of the first pass contains the Python list of the artifact's lines, each with its 1-based
  number and a colon in front; the prompt of every later pass contains the
  \<^verbatim>\<open>refactored_code\<close> of the reply before it as the model returned it, without numbers
  added. Nothing of a reply is read but its fields.
\<close>

theorem prompt_contains_code_as_given:
  assumes "conduct_code_refactor e file_data llm tool_name addl md = (r, log)"
    and "get_active_code_refactor_templates e tool_name = Inr ts"
    and "Field ''code'' \<in> set (get_prompt e ''code_refactor'' ''FINAL_CODE_REFACTOR_INSTRUCTIONS'')"
    and "\<forall>t \<in> set ts.
           Field ''final_code_refactor_instructions'' \<in> set (get_prompt e ''code_refactor'' (name t))"
  shows "(log \<noteq> [] \<longrightarrow>
            sublist (py_str (JList (map JStr (number_lines (splitlines file_data))))) (log ! 0))
       \<and> (\<forall>k < length (splitlines file_data).
            number_lines (splitlines file_data) ! k
              = show_nat (Suc k) @ '': '' @ splitlines file_data ! k)
       \<and> (\<forall>i. Suc i < length log \<longrightarrow>
            (\<exists>d c. decoded_reply e llm i (log ! i) = Inr d \<and> d ''refactored_code'' = Some c
                  \<and> sublist (py_str c) (log ! Suc i)))"
proof (cases "log = []")
  case True
  then show ?thesis by (simp add: number_lines_nth)
next
  case False
  let ?code = "JList (map JStr (number_lines (splitlines file_data)))"
  from assms(1) False obtain base where
    run: "run_code_refactors e ?code base llm tool_name addl md = (r, log)"
    by (auto simp: conduct_code_refactor_def Let_def split: sum.splits)
  note chain = run_code_refactors_chain [OF run assms(2)]
  from chain False have len: "length log \<le> length ts"
    and first: "code_refactor_prompt e base (ts ! 0) ?code md addl = Inr (log ! 0)"
    by simp_all
  have field: "Field ''final_code_refactor_instructions''
                 \<in> set (get_prompt e ''code_refactor'' (name (ts ! i)))" if "i < length log" for i
    using assms(4) len that by simp
  from False have "0 < length log" by simp
  from code_refactor_prompt_contains [OF first assms(3) field [OF this]]
  have one: "sublist (py_str ?code) (log ! 0)" .
  have later: "\<exists>d c. decoded_reply e llm i (log ! i) = Inr d \<and> d ''refactored_code'' = Some c
                  \<and> sublist (py_str c) (log ! Suc i)" if i: "Suc i < length log" for i
  proof -
    from chain i obtain d c where d: "decoded_reply e llm i (log ! i) = Inr d"
        "d ''refactored_code'' = Some c"
      and p: "code_refactor_prompt e base (ts ! Suc i) c md addl = Inr (log ! Suc i)"
      by blast
    from code_refactor_prompt_contains [OF p assms(3) field [OF i]] d show ?thesis by blast
  qed
  from one later show ?thesis by (simp add: number_lines_nth)
qed

text \<open>Witness for C9, amended: the run of the counterexample.\<close>

theorem prompt_contains_code_as_given_witness:
  "sublist ''['1: a=1']''
     (snd (demo_conduct [Security, Performance] False [reply_spaced, reply_other_metadata]) ! 0)
   \<and> sublist ''a = 1  # spaced''
     (snd (demo_conduct [Security, Performance] False [reply_spaced, reply_other_metadata]) ! 1)"
proof -
  let ?e = "demo_env [Security, Performance] False 4000 demo_table 3"
  let ?llm = "scripted_llm [reply_spaced, reply_other_metadata]"
  let ?run = "demo_conduct [Security, Performance] False [reply_spaced, reply_other_metadata]"
  let ?ts = "[concern_template Security, concern_template Performance]"
  have run: "conduct_code_refactor ?e ''a=1'' ?llm ''conduct_code_refactor_from_file_id'' JNull
               file_metadata = (fst ?run, snd ?run)"
    by (simp add: demo_conduct_def)
  have ts: "get_active_code_refactor_templates ?e ''conduct_code_refactor_from_file_id'' = Inr ?ts"
    by (simp add: demo_env_active activePasses_def canonical_order_def)
  have c: "Field ''code'' \<in> set (get_prompt ?e ''code_refactor'' ''FINAL_CODE_REFACTOR_INSTRUCTIONS'')"
    by (simp add: demo_env_def short_prompts_def final_code_refactor_instructions_template_def)
  have f: "\<forall>t \<in> set ?ts.
      Field ''final_code_refactor_instructions'' \<in> set (get_prompt ?e ''code_refactor'' (name t))"
    by (simp add: demo_env_def short_prompts_def concern_prompt_def)
  have len: "length (snd ?run) = 2"
    by code_simp
  have code: "py_str (JList (map JStr (number_lines (splitlines ''a=1'')))) = ''['1: a=1']''"
    by code_simp
  have d: "decoded_reply ?e ?llm 0 p = Inr (map_of data_spaced)" for p
    by (simp add: decoded_scripted demo_table_lookup)
  from prompt_contains_code_as_given [OF run ts c f] len code d show ?thesis
    by (auto simp: data_spaced_def)
qed

section \<open>C10: the label of the human-readable report\<close>

text \<open>
  C10. For a report whose metadata is a dictionary, \<^verbatim>\<open>format_refactor_results\<close> puts
  the value of \<^verbatim>\<open>url\<close> after \<^verbatim>\<open>File:\<close> when the key is there, the value of
  \<^verbatim>\<open>filename\<close> when only that key is there, and raises the key error for
  \<^verbatim>\<open>filename\<close> when neither is.
\<close>

theorem format_refactor_results_label:
  assumes "metadata r = JObj kvs"
  shows "(\<forall>u. map_of kvs ''url'' = Some u \<longrightarrow>
            (\<exists>s. format_refactor_results r = Inr s \<and> sublist (''- File: **'' @ py_str u @ ''**'') s))
       \<and> (\<forall>f. map_of kvs ''url'' = None \<longrightarrow> map_of kvs ''filename'' = Some f \<longrightarrow>
            (\<exists>s. format_refactor_results r = Inr s \<and> sublist (''- File: **'' @ py_str f @ ''**'') s))
       \<and> (map_of kvs ''url'' = None \<longrightarrow> map_of kvs ''filename'' = None \<longrightarrow>
            format_refactor_results r = Inl (KeyError ''filename''))"
proof -
  have layout: "\<exists>s. format_str formatted_results_template
            [(''language'', l), (''filename_or_url'', lab), (''thoughts'', th), (''code'', c)] = Inr s
          \<and> sublist (''- File: **'' @ lab @ ''**'') s" for l lab th c
  proof -
    have "sublist (''- File: **'' @ lab @ ''**'')
            ((''## Code Refactor\<newline>- Language: **'' @ l @ ''**\<newline>'') @ (''- File: **'' @ lab @ ''**'')
             @ (''\<newline>\<newline>'' @ th @ ''\<newline>\<newline>### Refactored Code\<newline>```'' @ l @ ''\<newline>'' @ c @ ''\<newline>```\<newline>''))"
      by (rule sublist_appendI)
    then show ?thesis by (simp add: formatted_results_template_def)
  qed
  have url: "map_of kvs ''url'' = Some u \<Longrightarrow> filename_or_url (metadata r) = Inr u" for u
    using assms by (auto simp: filename_or_url_def dest: map_of_SomeD intro: rev_image_eqI)
  have no_url: "map_of kvs ''url'' = None \<Longrightarrow> ''url'' \<notin> set (map fst kvs)"
    by (simp add: map_of_eq_None_iff)
  have fname: "map_of kvs ''url'' = None \<Longrightarrow> map_of kvs ''filename'' = Some f \<Longrightarrow>
      filename_or_url (metadata r) = Inr f" for f
    using assms no_url by (simp add: filename_or_url_def)
  have neither: "map_of kvs ''url'' = None \<Longrightarrow> map_of kvs ''filename'' = None \<Longrightarrow>
      filename_or_url (metadata r) = Inl (KeyError ''filename'')"
    using assms no_url by (simp add: filename_or_url_def)
  show ?thesis
    using url fname neither layout
    by (simp add: format_refactor_results_def Let_def)
qed

text \<open>
  Witness for C10: a metadata dictionary with both keys (the URL wins), one with the file
  name only, and one with neither.
\<close>

theorem format_refactor_results_label_witness:
  "(\<exists>s. format_refactor_results
           (demo_results (JObj [(''filename'', JStr ''a.py''), (''url'', JStr ''https://example.org/a.py'')]))
         = Inr s \<and> sublist ''- File: **https://example.org/a.py**'' s)
   \<and> (\<exists>s. format_refactor_results (demo_results (JObj [(''filename'', JStr ''a.py'')])) = Inr s
          \<and> sublist ''- File: **a.py**'' s)
   \<and> format_refactor_results (demo_results (JObj [(''path'', JStr ''a.py'')]))
       = Inl (KeyError ''filename'')"
  using
    format_refactor_results_label
      [of "demo_results (JObj [(''filename'', JStr ''a.py''), (''url'', JStr ''https://example.org/a.py'')])"
          "[(''filename'', JStr ''a.py''), (''url'', JStr ''https://example.org/a.py'')]"]
    format_refactor_results_label
      [of "demo_results (JObj [(''filename'', JStr ''a.py'')])" "[(''filename'', JStr ''a.py'')]"]
    format_refactor_results_label
      [of "demo_results (JObj [(''path'', JStr ''a.py'')])" "[(''path'', JStr ''a.py'')]"]
  by (simp add: demo_results_def)

end
